theory Spec2Isabelle
  imports Main "HOL-Library.Word"
begin

unbundle bit_operations_syntax

section \<open>Strings of the script\<close>

text \<open>
  A JavaScript string is a sequence of UTF-16 code units. The texts of the script are
  written as ASCII literals and lifted with \<open>js\<close>; the few non-ASCII characters of its
  messages are given by their code units.
\<close>

type_synonym jsstring = "16 word list"

definition js :: "string \<Rightarrow> jsstring" where
  "js s = map (\<lambda>c. of_nat (of_char c)) s"

text \<open>
  \<open>String.prototype.trim\<close> removes the code units of the ECMAScript productions
  WhiteSpace and LineTerminator from both ends.
\<close>

definition white_space_units :: "16 word list" where
  "white_space_units =
     [0x0009, 0x000A, 0x000B, 0x000C, 0x000D, 0x0020, 0x00A0, 0x1680,
      0x2000, 0x2001, 0x2002, 0x2003, 0x2004, 0x2005, 0x2006, 0x2007,
      0x2008, 0x2009, 0x200A, 0x2028, 0x2029, 0x202F, 0x205F, 0x3000, 0xFEFF]"

definition is_white_space :: "16 word \<Rightarrow> bool" where
  "is_white_space c \<longleftrightarrow> c \<in> set white_space_units"

definition trim :: "jsstring \<Rightarrow> jsstring" where
  "trim s = rev (dropWhile is_white_space (rev (dropWhile is_white_space s)))"

section \<open>Credential generator\<close>

subsection \<open>Hexadecimal encoding of a buffer\<close>

definition hex_digit :: "nat \<Rightarrow> 16 word" where
  "hex_digit n = js ''0123456789abcdef'' ! n"

definition hex_byte :: "8 word \<Rightarrow> jsstring" where
  "hex_byte b = [hex_digit (unat b div 16), hex_digit (unat b mod 16)]"

definition to_hex :: "8 word list \<Rightarrow> jsstring" where
  "to_hex bs = concat (map hex_byte bs)"

subsection \<open>UTF-8 encoding of a string\<close>

text \<open>
  \<open>update(s, "utf8")\<close> hashes the UTF-8 encoding of \<open>s\<close>: one to three bytes for a
  code unit outside the surrogate range, four bytes for a surrogate pair, and the
  replacement character U+FFFD for a surrogate without its partner.
\<close>

definition utf8_unit :: "16 word \<Rightarrow> 8 word list" where
  "utf8_unit c =
     (if c < 0x80 then [ucast c]
      else if c < 0x800 then [0xC0 OR ucast (drop_bit 6 c), 0x80 OR ucast (c AND 0x3F)]
      else [0xE0 OR ucast (drop_bit 12 c),
            0x80 OR ucast (drop_bit 6 c AND 0x3F),
            0x80 OR ucast (c AND 0x3F)])"

definition utf8_pair :: "16 word \<Rightarrow> 16 word \<Rightarrow> 8 word list" where
  "utf8_pair hi lo =
     (let cp = 0x10000 + push_bit 10 (ucast (hi AND 0x3FF)) + ucast (lo AND 0x3FF) :: 32 word
      in [0xF0 OR ucast (drop_bit 18 cp),
          0x80 OR ucast (drop_bit 12 cp AND 0x3F),
          0x80 OR ucast (drop_bit 6 cp AND 0x3F),
          0x80 OR ucast (cp AND 0x3F)])"

definition is_high_surrogate :: "16 word \<Rightarrow> bool" where
  "is_high_surrogate c \<longleftrightarrow> 0xD800 \<le> c \<and> c < 0xDC00"

definition is_low_surrogate :: "16 word \<Rightarrow> bool" where
  "is_low_surrogate c \<longleftrightarrow> 0xDC00 \<le> c \<and> c < 0xE000"

fun utf8 :: "jsstring \<Rightarrow> 8 word list" where
  "utf8 [] = []"
| "utf8 [c] =
     (if is_high_surrogate c \<or> is_low_surrogate c then [0xEF, 0xBF, 0xBD] else utf8_unit c)"
| "utf8 (c # d # ds) =
     (if is_high_surrogate c then
        (if is_low_surrogate d then utf8_pair c d @ utf8 ds
         else [0xEF, 0xBF, 0xBD] @ utf8 (d # ds))
      else if is_low_surrogate c then [0xEF, 0xBF, 0xBD] @ utf8 (d # ds)
      else utf8_unit c @ utf8 (d # ds))"

subsection \<open>SHA-256\<close>

text \<open>
  \<open>crypto.createHash("sha256")\<close> is the SHA-256 function of FIPS 180-4, on 32-bit words.
\<close>

definition rotr :: "nat \<Rightarrow> 32 word \<Rightarrow> 32 word" where
  "rotr n x = word_rotr n x"

definition Ch :: "32 word \<Rightarrow> 32 word \<Rightarrow> 32 word \<Rightarrow> 32 word" where
  "Ch x y z = (x AND y) XOR (NOT x AND z)"

definition Maj :: "32 word \<Rightarrow> 32 word \<Rightarrow> 32 word \<Rightarrow> 32 word" where
  "Maj x y z = (x AND y) XOR (x AND z) XOR (y AND z)"

definition Sigma0 :: "32 word \<Rightarrow> 32 word" where
  "Sigma0 x = rotr 2 x XOR rotr 13 x XOR rotr 22 x"

definition Sigma1 :: "32 word \<Rightarrow> 32 word" where
  "Sigma1 x = rotr 6 x XOR rotr 11 x XOR rotr 25 x"

definition sigma0 :: "32 word \<Rightarrow> 32 word" where
  "sigma0 x = rotr 7 x XOR rotr 18 x XOR drop_bit 3 x"

definition sigma1 :: "32 word \<Rightarrow> 32 word" where
  "sigma1 x = rotr 17 x XOR rotr 19 x XOR drop_bit 10 x"

text \<open>
  The constants of the standard are fractional parts of roots of the first primes: the
  round constants are the first 32 bits of the fractional parts of the cube roots of the
  first 64 primes, the initial hash value those of the square roots of the first 8.
  \<open>root_floor e n\<close> is the integer part of the \<open>e\<close>-th root of \<open>n\<close>, for roots below
  \<open>2 ^ 36\<close>, found bit by bit from the top.
\<close>

fun root_bits :: "nat \<Rightarrow> int \<Rightarrow> nat \<Rightarrow> int \<Rightarrow> int" where
  "root_bits e n 0 r = r"
| "root_bits e n (Suc k) r =
     (let c = r + 2 ^ k in root_bits e n k (if c ^ e \<le> n then c else r))"

definition root_floor :: "nat \<Rightarrow> int \<Rightarrow> int" where
  "root_floor e n = root_bits e n 36 0"

definition frac_sqrt :: "nat \<Rightarrow> 32 word" where
  "frac_sqrt p = word_of_int (root_floor 2 (int p * 2 ^ 64))"

definition frac_cbrt :: "nat \<Rightarrow> 32 word" where
  "frac_cbrt p = word_of_int (root_floor 3 (int p * 2 ^ 96))"

definition first_primes :: "nat list" where
  "first_primes = filter (\<lambda>p. list_all (\<lambda>d. p mod d \<noteq> 0) [2..<p]) [2..<312]"

definition K256 :: "32 word list" where
  "K256 = map frac_cbrt first_primes"

type_synonym sha_state =
  "32 word \<times> 32 word \<times> 32 word \<times> 32 word \<times> 32 word \<times> 32 word \<times> 32 word \<times> 32 word"

definition H256 :: sha_state where
  "H256 = (frac_sqrt 2, frac_sqrt 3, frac_sqrt 5, frac_sqrt 7,
           frac_sqrt 11, frac_sqrt 13, frac_sqrt 17, frac_sqrt 19)"

definition length_bytes :: "64 word \<Rightarrow> 8 word list" where
  "length_bytes v = map (\<lambda>i. ucast (drop_bit (8 * (7 - i)) v)) [0..<8]"

definition sha_pad :: "8 word list \<Rightarrow> 8 word list" where
  "sha_pad m =
     m @ [0x80] @ replicate ((119 - length m mod 64) mod 64) 0
       @ length_bytes (of_nat (8 * length m))"

fun be_words :: "8 word list \<Rightarrow> 32 word list" where
  "be_words (a # b # c # d # rest) =
     (push_bit 24 (ucast a) OR push_bit 16 (ucast b) OR push_bit 8 (ucast c) OR ucast d)
       # be_words rest"
| "be_words _ = []"

fun schedule :: "nat \<Rightarrow> 32 word list \<Rightarrow> 32 word list" where
  "schedule 0 w = w"
| "schedule (Suc k) w =
     (let n = length w
      in schedule k
           (w @ [sigma1 (w ! (n - 2)) + w ! (n - 7) + sigma0 (w ! (n - 15)) + w ! (n - 16)]))"

fun sha_round :: "32 word \<times> 32 word \<Rightarrow> sha_state \<Rightarrow> sha_state" where
  "sha_round (k, w) (a, b, c, d, e, f, g, h) =
     (let t1 = h + Sigma1 e + Ch e f g + k + w;
          t2 = Sigma0 a + Maj a b c
      in (t1 + t2, a, b, c, d + t1, e, f, g))"

fun add_state :: "sha_state \<Rightarrow> sha_state \<Rightarrow> sha_state" where
  "add_state (a, b, c, d, e, f, g, h) (a', b', c', d', e', f', g', h') =
     (a + a', b + b', c + c', d + d', e + e', f + f', g + g', h + h')"

definition compress :: "8 word list \<Rightarrow> sha_state \<Rightarrow> sha_state" where
  "compress block st = add_state st (fold sha_round (zip K256 (schedule 48 (be_words block))) st)"

fun blocks :: "nat \<Rightarrow> 8 word list \<Rightarrow> 8 word list list" where
  "blocks 0 bs = []"
| "blocks (Suc k) bs = take 64 bs # blocks k (drop 64 bs)"

definition word_bytes :: "32 word \<Rightarrow> 8 word list" where
  "word_bytes x = [ucast (drop_bit 24 x), ucast (drop_bit 16 x), ucast (drop_bit 8 x), ucast x]"

fun state_bytes :: "sha_state \<Rightarrow> 8 word list" where
  "state_bytes (a, b, c, d, e, f, g, h) =
     concat (map word_bytes [a, b, c, d, e, f, g, h])"

definition sha256 :: "8 word list \<Rightarrow> 8 word list" where
  "sha256 m =
     (let p = sha_pad m
      in state_bytes (fold compress (blocks (length p div 64) p) H256))"

subsection \<open>The two functions of the script\<close>

definition sha256Hex :: "jsstring \<Rightarrow> jsstring" where
  "sha256Hex s = to_hex (sha256 (utf8 s))"

text \<open>
  \<open>crypto.randomBytes(n)\<close> returns \<open>n\<close> bytes of the system's entropy source, which is a
  parameter of the model.
\<close>

definition randomBytes :: "(nat \<Rightarrow> 8 word) \<Rightarrow> nat \<Rightarrow> 8 word list" where
  "randomBytes rng n = map rng [0..<n]"

definition genApiKey :: "(nat \<Rightarrow> 8 word) \<Rightarrow> jsstring" where
  "genApiKey rng = to_hex (randomBytes rng 24)"

section \<open>The database server\<close>

text \<open>
  The script talks to a PostgreSQL server through \<open>pool.query\<close>. The server is not part
  of the repository; it is modelled by the three tables the script writes, as other
  sessions see them (\<open>committed\<close>), the default of \<open>tenants.id\<close> and the clock behind
  \<open>now()\<close>. Rows are kept in insertion order. A session is outside a transaction block,
  inside one (with the block's own copy of the tables), or inside one that has failed.
\<close>

type_synonym tenant_id = jsstring

record tenant_secret =
  ghl_api_key :: jsstring
  ghl_location_id :: jsstring
  ghl_base_url :: jsstring
  ghl_version :: jsstring
  updated_at :: "nat option"

record tables =
  tenants :: "(tenant_id \<times> jsstring) list"
  api_keys :: "(tenant_id \<times> jsstring \<times> jsstring) list"
  tenant_secrets :: "(tenant_id \<times> tenant_secret) list"

record database =
  committed :: tables
  id_default :: "nat \<Rightarrow> tenant_id"
  id_seq :: nat
  now :: nat

datatype session = Idle | InTransaction tables | Aborted

text \<open>The statements the script sends, with their parameters.\<close>

datatype statement =
    Begin
  | InsertTenant jsstring
  | InsertApiKey tenant_id jsstring jsstring
  | UpsertTenantSecret tenant_id jsstring jsstring jsstring jsstring
  | Commit
  | Rollback

datatype error = Error jsstring

fun message :: "error \<Rightarrow> jsstring" where
  "message (Error m) = m"

text \<open>
  \<open>insert ... on conflict (tenant_id) do update set ...\<close>: a row with the tenant's id is
  overwritten in its four third-party columns and gets \<open>updated_at = now()\<close>; without
  such a row a new one is appended, whose \<open>updated_at\<close> the statement leaves to the
  column's default (\<open>None\<close>: not set by the statement).
\<close>

fun upsert_secret ::
  "tenant_id \<Rightarrow> jsstring \<Rightarrow> jsstring \<Rightarrow> jsstring \<Rightarrow> jsstring \<Rightarrow> nat \<Rightarrow>
   (tenant_id \<times> tenant_secret) list \<Rightarrow> (tenant_id \<times> tenant_secret) list" where
  "upsert_secret t k l b v ts [] =
     [(t, \<lparr>ghl_api_key = k, ghl_location_id = l, ghl_base_url = b, ghl_version = v,
           updated_at = None\<rparr>)]"
| "upsert_secret t k l b v ts ((t', old) # rows) =
     (if t' = t
      then (t', old\<lparr>ghl_api_key := k, ghl_location_id := l, ghl_base_url := b,
                    ghl_version := v, updated_at := Some ts\<rparr>) # rows
      else (t', old) # upsert_secret t k l b v ts rows)"

text \<open>The effect of a data statement on the tables it runs against, and the rows it returns.\<close>

fun write_rows :: "statement \<Rightarrow> tenant_id \<Rightarrow> nat \<Rightarrow> tables \<Rightarrow> tables" where
  "write_rows (InsertTenant n) new_id ts t = t\<lparr>tenants := tenants t @ [(new_id, n)]\<rparr>"
| "write_rows (InsertApiKey tid key_hash lbl) new_id ts t =
     t\<lparr>api_keys := api_keys t @ [(tid, key_hash, lbl)]\<rparr>"
| "write_rows (UpsertTenantSecret tid k l b v) new_id ts t =
     t\<lparr>tenant_secrets := upsert_secret tid k l b v ts (tenant_secrets t)\<rparr>"
| "write_rows _ new_id ts t = t"

fun returned_rows :: "statement \<Rightarrow> tenant_id \<Rightarrow> tenant_id list" where
  "returned_rows (InsertTenant n) new_id = [new_id]"
| "returned_rows _ new_id = []"

fun draws_id :: "statement \<Rightarrow> bool" where
  "draws_id (InsertTenant n) = True"
| "draws_id _ = False"

definition in_failed_transaction :: error where
  "in_failed_transaction =
     Error (js ''current transaction is aborted, commands ignored until end of transaction block'')"

text \<open>
  A statement outside a transaction block is committed at once; inside a block it
  changes the block's own copy of the tables, which \<open>commit\<close> makes visible and
  \<open>rollback\<close> discards. A value drawn for \<open>tenants.id\<close> is not given back.
\<close>

definition run_data_statement ::
  "statement \<Rightarrow> session \<Rightarrow> database \<Rightarrow> (error + tenant_id list) \<times> session \<times> database" where
  "run_data_statement q s d =
     (let new_id = id_default d (id_seq d);
          d' = (if draws_id q then d\<lparr>id_seq := Suc (id_seq d)\<rparr> else d)
      in case s of
           Idle \<Rightarrow> (Inr (returned_rows q new_id), Idle,
                    d'\<lparr>committed := write_rows q new_id (now d) (committed d)\<rparr>)
         | InTransaction t \<Rightarrow> (Inr (returned_rows q new_id),
                    InTransaction (write_rows q new_id (now d) t), d')
         | Aborted \<Rightarrow> (Inl in_failed_transaction, Aborted, d))"

fun execute ::
  "statement \<Rightarrow> session \<Rightarrow> database \<Rightarrow> (error + tenant_id list) \<times> session \<times> database" where
  "execute Begin s d =
     (case s of
        Idle \<Rightarrow> (Inr [], InTransaction (committed d), d)
      | InTransaction t \<Rightarrow> (Inr [], InTransaction t, d)
      | Aborted \<Rightarrow> (Inl in_failed_transaction, Aborted, d))"
| "execute Commit s d =
     (case s of
        Idle \<Rightarrow> (Inr [], Idle, d)
      | InTransaction t \<Rightarrow> (Inr [], Idle, d\<lparr>committed := t\<rparr>)
      | Aborted \<Rightarrow> (Inr [], Idle, d))"
| "execute Rollback s d = (Inr [], Idle, d)"
| "execute q s d = run_data_statement q s d"

text \<open>
  A statement that fails (a violated constraint, a lost connection) changes no table;
  a transaction block that was open is aborted.
\<close>

fun fail_session :: "session \<Rightarrow> session" where
  "fail_session Idle = Idle"
| "fail_session _ = Aborted"

section \<open>The world of a run\<close>

text \<open>
  What a run reads and changes: the lines the operator will type, the database, the
  session of the pool's connection (\<open>None\<close>: no connection is open; when a connection
  closes, the server discards a transaction block that is still open with it), the
  failures the server or the network will answer the coming queries with (\<open>None\<close>: the
  query is executed; \<open>Some m\<close>: it is rejected with message \<open>m\<close>; past the end of the
  list every query is executed), and the trace of what the process did.
\<close>

datatype event =
    Prompt jsstring
  | ConsoleLog jsstring
  | ConsoleError "jsstring list"
  | PoolCreated jsstring
  | Query statement
  | PoolEnd
  | ProcessExit nat

record world =
  stdin :: "jsstring list"
  db_server :: database
  connection :: "session option"
  faults :: "jsstring option list"
  trace :: "event list"

text \<open>
  An awaited promise resolves, rejects, or never settles (\<open>Pending\<close>: nothing after the
  \<open>await\<close> runs).
\<close>

datatype 'a outcome = Resolved 'a | Rejected error | Pending

type_synonym 'a action = "world \<Rightarrow> 'a outcome \<times> world"

definition await :: "'a action \<Rightarrow> ('a \<Rightarrow> 'b action) \<Rightarrow> 'b action" where
  "await m f w =
     (case m w of
        (Resolved x, w') \<Rightarrow> f x w'
      | (Rejected e, w') \<Rightarrow> (Rejected e, w')
      | (Pending, w') \<Rightarrow> (Pending, w'))"

definition resolve :: "'a \<Rightarrow> 'a action" where
  "resolve x w = (Resolved x, w)"

definition throw :: "error \<Rightarrow> 'a action" where
  "throw e w = (Rejected e, w)"

definition emit :: "event \<Rightarrow> world \<Rightarrow> world" where
  "emit e w = w\<lparr>trace := trace w @ [e]\<rparr>"

definition console_log :: "jsstring \<Rightarrow> unit action" where
  "console_log s w = (Resolved (), emit (ConsoleLog s) w)"

definition console_error :: "jsstring list \<Rightarrow> world \<Rightarrow> world" where
  "console_error args w = emit (ConsoleError args) w"

text \<open>
  \<open>ask\<close>: the question is written to the terminal; when the operator submits a line,
  the promise resolves with the line trimmed. With no line to come it never settles.
\<close>

definition ask :: "jsstring \<Rightarrow> jsstring action" where
  "ask question w =
     (case stdin w of
        [] \<Rightarrow> (Pending, emit (Prompt question) w)
      | ans # rest \<Rightarrow> (Resolved (trim ans), (emit (Prompt question) w)\<lparr>stdin := rest\<rparr>))"

text \<open>
  \<open>new Pool({ connectionString, max: 1 })\<close> opens no connection. With \<open>max: 1\<close> every
  \<open>pool.query\<close> of the run is served by the one connection of the pool, opened by the
  first query; its session starts outside a transaction block.
\<close>

definition new_pool :: "jsstring \<Rightarrow> world \<Rightarrow> world" where
  "new_pool url w = (emit (PoolCreated url) w)\<lparr>connection := None\<rparr>"

definition current_session :: "world \<Rightarrow> session" where
  "current_session w = (case connection w of None \<Rightarrow> Idle | Some s \<Rightarrow> s)"

definition pool_query :: "statement \<Rightarrow> tenant_id list action" where
  "pool_query q w =
     (let w' = emit (Query q) w
      in case faults w of
           Some m # fs \<Rightarrow>
             (Rejected (Error m),
              w'\<lparr>faults := fs, connection := Some (fail_session (current_session w))\<rparr>)
         | _ \<Rightarrow>
             (case execute q (current_session w) (db_server w) of
                (Inl e, s, d) \<Rightarrow>
                  (Rejected e, w'\<lparr>faults := tl (faults w), connection := Some s, db_server := d\<rparr>)
              | (Inr rows, s, d) \<Rightarrow>
                  (Resolved rows,
                   w'\<lparr>faults := tl (faults w), connection := Some s, db_server := d\<rparr>)))"

definition pool_end :: "world \<Rightarrow> world" where
  "pool_end w = (emit PoolEnd w)\<lparr>connection := None\<rparr>"

text \<open>
  How a run ends: \<open>process.exit(code)\<close> ends the process on the spot, and nothing that
  follows the call in the program is executed; \<open>Returned\<close> is \<open>main\<close> running to its
  end, after which the process exits with code 0; \<open>Unsettled\<close> is \<open>main\<close> waiting for
  a promise that never settles.
\<close>

datatype exit_status = Exited nat | Returned | Unsettled

fun exit_code :: "exit_status \<Rightarrow> nat option" where
  "exit_code (Exited c) = Some c"
| "exit_code Returned = Some 0"
| "exit_code Unsettled = None"

definition process_exit :: "nat \<Rightarrow> world \<Rightarrow> exit_status \<times> world" where
  "process_exit c w = (Exited c, (emit (ProcessExit c) w)\<lparr>connection := None\<rparr>)"

section \<open>The script \<open>create-tenant\<close>\<close>

record process_env =
  DATABASE_URL :: "jsstring option"
  NODE_ENV :: "jsstring option"

record Answers =
  name :: jsstring
  label :: jsstring
  ghlApiKey :: jsstring
  ghlLocationId :: jsstring
  ghlBaseUrl :: jsstring
  ghlVersion :: jsstring

text \<open>\<open>x || d\<close> on strings: the empty string is the only falsy one.\<close>

definition or_default :: "jsstring \<Rightarrow> jsstring \<Rightarrow> jsstring" where
  "or_default x d = (if x = [] then d else x)"

definition name_required :: error where
  "name_required = Error (js ''Tenant name is required.'')"

definition both_required :: error where
  "both_required =
     Error (js ''If you provide GHL credentials, you must provide BOTH API key and Location ID.'')"

definition no_row :: error where
  "no_row =
     Error (js ''Cannot read properties of undefined (reading '' @ [0x27] @ js ''id''
              @ [0x27] @ js '')'')"

text \<open>Lines 44 to 56 of \<open>main\<close>: the six prompts.\<close>

definition q_name :: jsstring where
  "q_name = js ''Tenant name (company): ''"

definition q_label :: jsstring where
  "q_label = js ''API key label [primary]: ''"

definition q_api_key :: jsstring where
  "q_api_key = js ''GHL API key (press Enter to skip for now): ''"

definition q_location_id :: jsstring where
  "q_location_id = js ''GHL Location ID (press Enter to skip for now): ''"

definition q_base_url :: jsstring where
  "q_base_url = js ''GHL Base URL [https://services.leadconnectorhq.com]: ''"

definition q_version :: jsstring where
  "q_version = js ''GHL Version [2021-07-28]: ''"

definition collect :: "Answers action" where
  "collect =
     await (ask q_name) (\<lambda>n.
       if n = [] then throw name_required
       else
     await (ask q_label) (\<lambda>l.
     await (ask q_api_key) (\<lambda>k.
     await (ask q_location_id) (\<lambda>loc.
     await (ask q_base_url) (\<lambda>b.
     await (ask q_version) (\<lambda>v.
     resolve \<lparr>name = n,
              label = or_default l (js ''primary''),
              ghlApiKey = k,
              ghlLocationId = loc,
              ghlBaseUrl = or_default b (js ''https://services.leadconnectorhq.com''),
              ghlVersion = or_default v (js ''2021-07-28'')\<rparr>))))))"

text \<open>Lines 62 to 99: the transaction. It resolves with the tenant's id.\<close>

definition store_secrets :: "Answers \<Rightarrow> tenant_id \<Rightarrow> unit action" where
  "store_secrets a tenantId =
     (if ghlApiKey a \<noteq> [] \<or> ghlLocationId a \<noteq> [] then
        (if ghlApiKey a = [] \<or> ghlLocationId a = [] then throw both_required
         else await (pool_query (UpsertTenantSecret tenantId (ghlApiKey a) (ghlLocationId a)
                                   (ghlBaseUrl a) (ghlVersion a)))
                (\<lambda>_. resolve ()))
      else resolve ())"

definition write_tenant :: "Answers \<Rightarrow> jsstring \<Rightarrow> tenant_id action" where
  "write_tenant a keyHash =
     await (pool_query Begin) (\<lambda>_.
     await (pool_query (InsertTenant (name a))) (\<lambda>rows.
       case rows of
         [] \<Rightarrow> throw no_row
       | tenantId # _ \<Rightarrow>
     await (pool_query (InsertApiKey tenantId keyHash (label a))) (\<lambda>_.
     await (store_secrets a tenantId) (\<lambda>_.
     await (pool_query Commit) (\<lambda>_.
     resolve tenantId)))))"

text \<open>Lines 101 to 117: the report.\<close>

fun console_logs :: "jsstring list \<Rightarrow> unit action" where
  "console_logs [] = resolve ()"
| "console_logs (s # ss) = await (console_log s) (\<lambda>_. console_logs ss)"

definition dashes :: jsstring where
  "dashes = js (replicate 50 (CHR ''-''))"

definition skipped_note :: jsstring where
  "skipped_note =
     [0x2139, 0xFE0F] @ js ''  Note: You skipped tenant_secrets. This tenant will only work if your server has env GHL_API_KEY + GHL_LOCATION_ID set (single-tenant fallback).''"

definition report_lines :: "Answers \<Rightarrow> tenant_id \<Rightarrow> jsstring \<Rightarrow> jsstring list" where
  "report_lines a tenantId rawKey =
     [[0x000A, 0x2705] @ js '' Tenant created!'',
      dashes,
      js ''Tenant:     '' @ name a,
      js ''Tenant ID:  '' @ tenantId,
      js ''Key label:  '' @ label a,
      [0x000A, 0xD83D, 0xDD11] @ js '' API Key (SAVE THIS NOW '' @ [0x2014]
        @ js '' it will not be shown again):'',
      rawKey,
      [0x000A, 0xD83D, 0xDCCC] @ js '' n8n Header:'',
      js ''Authorization: Bearer '' @ rawKey,
      [0x000A, 0xD83D, 0xDCCD] @ js '' Execute endpoint:'',
      js ''POST /api/execute  (use your deployed base URL)'',
      dashes @ [0x000A]]"

definition report :: "Answers \<Rightarrow> tenant_id \<Rightarrow> jsstring \<Rightarrow> unit action" where
  "report a tenantId rawKey =
     await (console_logs (report_lines a tenantId rawKey))
       (\<lambda>_. if ghlApiKey a = [] \<or> ghlLocationId a = [] then console_log skipped_note
            else resolve ())"

text \<open>The body of the \<open>try\<close>, lines 44 to 117.\<close>

definition try_block :: "(nat \<Rightarrow> 8 word) \<Rightarrow> unit action" where
  "try_block rng =
     await collect (\<lambda>a.
       let rawKey = genApiKey rng;
           keyHash = sha256Hex rawKey
       in await (write_tenant a keyHash) (\<lambda>tenantId. report a tenantId rawKey))"

definition missing_url :: jsstring where
  "missing_url = [0x274C] @ js '' Missing DATABASE_URL env var''"

definition failed_prefix :: jsstring where
  "failed_prefix = [0x000A, 0x274C] @ js '' create-tenant failed:''"

text \<open>
  The \<open>catch\<close> handler, lines 119 to 123: the rollback is awaited inside a \<open>try\<close> of its
  own with an empty \<open>catch\<close>, so its outcome is dropped; then the error of the body is
  printed and \<open>process.exit(1)\<close> is called.
\<close>

definition catch_handler :: "error \<Rightarrow> world \<Rightarrow> exit_status \<times> world" where
  "catch_handler err w =
     (case pool_query Rollback w of
        (_, w') \<Rightarrow> process_exit 1 (console_error [failed_prefix, message err] w'))"

text \<open>
  \<open>main\<close>. The \<open>finally\<close> block runs \<open>pool.end()\<close> when the body of the \<open>try\<close> completes;
  on the path through the \<open>catch\<close> handler the process has exited inside the handler.
  An empty \<open>DATABASE_URL\<close> is falsy, as a missing one.
\<close>

definition main :: "process_env \<Rightarrow> (nat \<Rightarrow> 8 word) \<Rightarrow> world \<Rightarrow> exit_status \<times> world" where
  "main env rng w =
     (case DATABASE_URL env of
        None \<Rightarrow> process_exit 1 (console_error [missing_url] w)
      | Some url \<Rightarrow>
          if url = [] then process_exit 1 (console_error [missing_url] w)
          else
            (case try_block rng (new_pool url w) of
               (Resolved _, w') \<Rightarrow> (Returned, pool_end w')
             | (Rejected err, w') \<Rightarrow> catch_handler err w'
             | (Pending, w') \<Rightarrow> (Unsettled, w')))"

section \<open>The shared pool accessor \<open>db\<close>\<close>

text \<open>
  The module keeps one variable, \<open>pool\<close>, \<open>null\<close> when the module is loaded. A \<open>Pool\<close>
  object is identified by its reference: its position among the objects constructed
  so far, which are recorded with the options they were constructed with.
\<close>

record pool_options =
  connectionString :: "jsstring option"
  rejectUnauthorized :: "bool option"

record module_state =
  pool :: "nat option"
  constructed :: "pool_options list"

definition module_loaded :: module_state where
  "module_loaded = \<lparr>pool = None, constructed = []\<rparr>"

definition db :: "process_env \<Rightarrow> module_state \<Rightarrow> nat \<times> module_state" where
  "db env m =
     (case pool m of
        None \<Rightarrow>
          (let r = length (constructed m);
               opts = \<lparr>connectionString = DATABASE_URL env,
                       rejectUnauthorized =
                         (if NODE_ENV env = Some (js ''production'') then Some False else None)\<rparr>
           in (r, m\<lparr>pool := Some r, constructed := constructed m @ [opts]\<rparr>))
      | Some r \<Rightarrow> (r, m))"

text \<open>A sequence of calls of \<open>db\<close>: the references returned, and the module afterwards.\<close>

fun db_calls :: "nat \<Rightarrow> process_env \<Rightarrow> module_state \<Rightarrow> nat list \<times> module_state" where
  "db_calls 0 env m = ([], m)"
| "db_calls (Suc n) env m =
     (case db env m of (r, m') \<Rightarrow> (case db_calls n env m' of (rs, m'') \<Rightarrow> (r # rs, m'')))"

text \<open>No failure is scheduled: every query will be executed.\<close>

definition quiet :: "jsstring option list \<Rightarrow> bool" where
  "quiet fs \<longleftrightarrow> (\<forall>f\<in>set fs. f = None)"

text \<open>Shorthands for the statements about a run of \<open>main\<close>.\<close>

abbreviation tables_before :: "world \<Rightarrow> tables" where
  "tables_before w \<equiv> committed (db_server w)"

abbreviation tables_after :: "process_env \<Rightarrow> (nat \<Rightarrow> 8 word) \<Rightarrow> world \<Rightarrow> tables" where
  "tables_after env rng w \<equiv> committed (db_server (snd (main env rng w)))"

abbreviation trace_after :: "process_env \<Rightarrow> (nat \<Rightarrow> 8 word) \<Rightarrow> world \<Rightarrow> event list" where
  "trace_after env rng w \<equiv> trace (snd (main env rng w))"

abbreviation new_id :: "world \<Rightarrow> tenant_id" where
  "new_id w \<equiv> id_default (db_server w) (id_seq (db_server w))"

section \<open>Concrete runs\<close>

text \<open>An environment, an entropy source, a database and a world to run the script on.\<close>

definition example_env :: process_env where
  "example_env = \<lparr>DATABASE_URL = Some (js ''postgres://localhost/app''), NODE_ENV = None\<rparr>"

definition example_rng :: "nat \<Rightarrow> 8 word" where
  "example_rng i = of_nat (37 * i + 11)"

definition example_database :: database where
  "example_database =
     \<lparr>committed = \<lparr>tenants = [], api_keys = [], tenant_secrets = []\<rparr>,
      id_default = (\<lambda>i. js ''tenant-'' @ [of_nat (48 + i)]),
      id_seq = 0,
      now = 100\<rparr>"

definition example_world :: "jsstring list \<Rightarrow> jsstring option list \<Rightarrow> world" where
  "example_world lines fs =
     \<lparr>stdin = lines, db_server = example_database, connection = None, faults = fs, trace = []\<rparr>"

definition example_lines :: "jsstring list" where
  "example_lines = [js '' Acme Corp '', [], js ''ghl-key'', js ''loc-42'', [], js '' '']"

definition partial_lines :: "jsstring list" where
  "partial_lines = [js ''Acme Corp'', js ''ci'', js ''ghl-key'', js ''  '', [], []]"




section \<open>Predicates on actions\<close>

text \<open>An action settles when it never leaves its promise pending.\<close>

definition settles :: "'a action \<Rightarrow> bool" where
  "settles m \<longleftrightarrow> (\<forall>w. fst (m w) \<noteq> Pending)"

text \<open>
  The world with every line of the operator trimmed, and the actions that read the
  operator's lines only through \<open>trim\<close>: run on the trimmed world they do the same,
  and leave the trimmed world.
\<close>

definition trimmed :: "world \<Rightarrow> world" where
  "trimmed w = w\<lparr>stdin := map trim (stdin w)\<rparr>"

definition reads_trimmed :: "'a action \<Rightarrow> bool" where
  "reads_trimmed m \<longleftrightarrow> (\<forall>w. m (trimmed w) = (case m w of (r, w') \<Rightarrow> (r, trimmed w')))"

text \<open>An action that never ends the pool: \<open>PoolEnd\<close> is in the trace after it only if it was before.\<close>

definition never_ends_pool :: "'a action \<Rightarrow> bool" where
  "never_ends_pool m \<longleftrightarrow> (\<forall>w. (PoolEnd \<in> set (trace (snd (m w)))) = (PoolEnd \<in> set (trace w)))"

section \<open>Properties of the parts\<close>

subsection \<open>Trimming and literals\<close>

lemma trim_blank: "\<forall>c\<in>set s. is_white_space c \<Longrightarrow> trim s = []"
  by (auto simp: trim_def dest: set_dropWhileD)

lemma trim_Nil: "trim [] = []"
  by (simp add: trim_def)

lemma dropWhile_fixed: "xs = [] \<or> \<not> P (hd xs) \<Longrightarrow> dropWhile P xs = xs"
  by (cases xs) auto

lemma dropWhile_head: "dropWhile P xs = [] \<or> \<not> P (hd (dropWhile P xs))"
  by (metis hd_dropWhile)

lemma strip_end_prefix: "\<exists>zs. xs = rev (dropWhile P (rev xs)) @ zs"
  by (metis rev_append rev_rev_ident takeWhile_dropWhile_id)

lemma trim_idem: "trim (trim s) = trim s"
proof -
  let ?P = is_white_space
  let ?t = "dropWhile ?P s"
  let ?u = "rev (dropWhile ?P (rev ?t))"
  have head: "?u = [] \<or> \<not> ?P (hd ?u)"
  proof (cases "?u = []")
    case False
    obtain zs where zs: "?t = ?u @ zs" using strip_end_prefix [of ?t ?P] by blast
    with False have "hd ?u = hd ?t" by (metis hd_append2)
    moreover from False zs have "?t \<noteq> []" by (metis Nil_is_append_conv)
    ultimately show ?thesis using dropWhile_head [of ?P s] by metis
  qed simp
  then have "dropWhile ?P ?u = ?u" by (rule dropWhile_fixed)
  then show ?thesis by (simp add: trim_def)
qed

lemma is_white_space_simps:
  "is_white_space 0x20" "\<not> is_white_space 0x41" 
  by (simp_all add: is_white_space_def white_space_units_def)

lemma trim_examples:
  "trim (js '' Acme Corp '') = js ''Acme Corp''"
  "trim (js ''Acme Corp'') = js ''Acme Corp''"
  "trim (js ''ghl-key'') = js ''ghl-key''"
  "trim (js ''loc-42'') = js ''loc-42''"
  "trim (js ''ci'') = js ''ci''"
  "trim (js '' '') = []"
  "trim (js ''  '') = []"
  by (simp_all add: trim_def js_def is_white_space_def white_space_units_def)

lemma js_eq_Nil: "(js s = []) = (s = [])"
  by (simp add: js_def)

lemma js_not_Nil: "js (c # cs) \<noteq> []"
  by (simp add: js_def)

lemma length_js: "length (js s) = length s"
  by (simp add: js_def)

subsection \<open>The key and its hash\<close>

lemma length_to_hex: "length (to_hex bs) = 2 * length bs"
  by (induction bs) (simp_all add: to_hex_def hex_byte_def)

lemma hex_digit_in: "n < 16 \<Longrightarrow> hex_digit n \<in> set (js ''0123456789abcdef'')"
  unfolding hex_digit_def by (rule nth_mem) (simp add: length_js)

lemma hex_byte_chars: "set (hex_byte b) \<subseteq> set (js ''0123456789abcdef'')"
proof -
  have "unat b < 256" using unsigned_less [of b, where ?'a = nat] by simp
  then have "unat b div 16 < 16" and "unat b mod 16 < 16" by simp_all
  then show ?thesis by (simp add: hex_byte_def hex_digit_in)
qed

lemma to_hex_chars: "set (to_hex bs) \<subseteq> set (js ''0123456789abcdef'')"
  using hex_byte_chars by (auto simp: to_hex_def)

lemma length_state_bytes: "length (state_bytes st) = 32"
proof -
  obtain a b c d e f g h where "st = (a, b, c, d, e, f, g, h)"
    by (metis surj_pair)
  then show ?thesis by (simp add: word_bytes_def)
qed

lemma length_sha256: "length (sha256 m) = 32"
  by (simp add: sha256_def Let_def length_state_bytes)

lemma length_randomBytes: "length (randomBytes rng n) = n"
  by (simp add: randomBytes_def)

text \<open>
  The first 64 primes, for the evaluation of the round constants: a number below 324
  with no divisor from 2 to 17 has none at all.
\<close>

lemma trial_division:
  assumes "p < 324"
  shows "list_all (\<lambda>d. p mod d \<noteq> 0) [2..<p] = list_all (\<lambda>d. p mod d \<noteq> 0) [2..<min p 18]"
proof -
  have "\<forall>d\<in>{2..<p}. p mod d \<noteq> 0" if small: "\<forall>d\<in>{2..<min p 18}. p mod d \<noteq> 0"
  proof (rule ccontr)
    assume "\<not> (\<forall>d\<in>{2..<p}. p mod d \<noteq> 0)"
    then obtain d where d: "2 \<le> d" "d < p" "p mod d = 0" by auto
    define e where "e = p div d"
    have p: "p = d * e" using d(3) by (auto simp: e_def)
    have e2: "2 \<le> e"
    proof (rule ccontr)
      assume "\<not> 2 \<le> e"
      then have "e \<le> 1" by simp
      then have "d * e \<le> d * 1" by (rule mult_le_mono2)
      with p d(2) show False by simp
    qed
    have "e * 2 \<le> e * d" using d(1) by (rule mult_le_mono2)
    with p e2 have ep: "e < p" by (simp add: mult.commute)
    have em: "p mod e = 0" using p by simp
    show False
    proof (cases "d < 18")
      case True
      with d small show False by auto
    next
      case False
      have "e < 18"
      proof (rule ccontr)
        assume "\<not> e < 18"
        with False have "18 * 18 \<le> d * e" by (intro mult_le_mono) simp_all
        with p assms show False by simp
      qed
      with e2 ep em small show False by auto
    qed
  qed
  then show ?thesis by (auto simp: list_all_iff)
qed

lemma first_primes_trial:
  "first_primes = filter (\<lambda>p. list_all (\<lambda>d. p mod d \<noteq> 0) [2..<min p 18]) [2..<312]"
  unfolding first_primes_def
proof (rule filter_cong [OF refl])
  fix p :: nat
  assume "p \<in> set [2..<312]"
  then have "p < 312" by (simp only: set_upt atLeastLessThan_iff)
  then have "p < 324" by simp
  then show "list_all (\<lambda>d. p mod d \<noteq> 0) [2..<p] = list_all (\<lambda>d. p mod d \<noteq> 0) [2..<min p 18]"
    by (rule trial_division)
qed

lemma first_primes_list:
  "first_primes = [2, 3, 5, 7, 11, 13, 17, 19, 23, 29, 31, 37, 41, 43, 47, 53, 59, 61, 67, 71, 73, 79, 83, 89, 97, 101, 103, 107, 109, 113, 127, 131, 137, 139, 149, 151, 157, 163, 167, 173, 179, 181, 191, 193, 197, 199, 211, 223, 227, 229, 233, 239, 241, 251, 257, 263, 269, 271, 277, 281, 283, 293, 307, 311]"
  unfolding first_primes_trial
  by simp

declare first_primes_list [code]

text \<open>
  The digest of the standard's test message \<open>abc\<close>, and the key and digest of the
  concrete runs.
\<close>

lemma sha256Hex_abc:
  "sha256Hex (js ''abc'') = js ''ba7816bf8f01cfea414140de5dae2223b00361a396177a9cb410ff61f20015ad''"
  by code_simp

lemma example_key: "genApiKey example_rng = js ''0b30557a9fc4e90e33587da2c7ec11365b80a5caef14395e''"
  by code_simp

lemma example_digest:
  "sha256Hex (js ''0b30557a9fc4e90e33587da2c7ec11365b80a5caef14395e'')
     = js ''6f1b3da6511e1b046edc6faa90c1eed5c9614b8bfefc16dc2c9f3558c4c90333''"
  by code_simp

text \<open>The hexadecimal encoding loses nothing: the key determines the entropy bytes.\<close>

lemma distinct_hex_digits: "distinct (js ''0123456789abcdef'')"
  by (simp add: js_def)

lemma hex_digit_inj: "m < 16 \<Longrightarrow> n < 16 \<Longrightarrow> hex_digit m = hex_digit n \<Longrightarrow> m = n"
  unfolding hex_digit_def
  using distinct_hex_digits by (simp add: nth_eq_iff_index_eq length_js)

lemma hex_byte_inj: "hex_byte a = hex_byte b \<Longrightarrow> a = b"
proof -
  assume eq: "hex_byte a = hex_byte b"
  have a: "unat a < 256" using unsigned_less [of a, where ?'a = nat] by simp
  have b: "unat b < 256" using unsigned_less [of b, where ?'a = nat] by simp
  from eq have "hex_digit (unat a div 16) = hex_digit (unat b div 16)"
    and "hex_digit (unat a mod 16) = hex_digit (unat b mod 16)"
    by (simp_all add: hex_byte_def)
  with a b have "unat a div 16 = unat b div 16" and "unat a mod 16 = unat b mod 16"
    by (auto intro: hex_digit_inj)
  then have "unat a = unat b" by (metis div_mult_mod_eq)
  then show "a = b" by (simp add: word_unat_eq_iff)
qed

lemma to_hex_inj: "length xs = length ys \<Longrightarrow> to_hex xs = to_hex ys \<Longrightarrow> xs = ys"
proof (induction xs ys rule: list_induct2)
  case Nil
  then show ?case by simp
next
  case (Cons x xs y ys)
  from Cons.prems have "hex_byte x @ to_hex xs = hex_byte y @ to_hex ys"
    by (simp add: to_hex_def)
  then have "hex_byte x = hex_byte y" and "to_hex xs = to_hex ys"
    by (simp_all add: hex_byte_def)
  with Cons.IH show ?case by (simp add: hex_byte_inj)
qed

lemma genApiKey_inj:
  assumes "genApiKey rng = genApiKey rng'" and "i < 24"
  shows "rng i = rng' i"
proof -
  from assms(1) have "randomBytes rng 24 = randomBytes rng' 24"
    unfolding genApiKey_def by (intro to_hex_inj) (simp_all add: length_randomBytes)
  then have "randomBytes rng 24 ! i = randomBytes rng' 24 ! i" by simp
  with assms(2) show ?thesis by (simp add: randomBytes_def)
qed

subsection \<open>The upsert\<close>

lemma upsert_secret_length:
  "length (upsert_secret t k l b v ts rows) \<le> Suc (length rows)"
  by (induction rows) auto

lemma upsert_secret_others:
  "filter (\<lambda>r. fst r \<noteq> t) (upsert_secret t k l b v ts rows) = filter (\<lambda>r. fst r \<noteq> t) rows"
  by (induction rows) auto

lemma upsert_secret_existing:
  "map_of rows t = Some old \<Longrightarrow>
   map_of (upsert_secret t k l b v ts rows) t =
     Some (old\<lparr>ghl_api_key := k, ghl_location_id := l, ghl_base_url := b, ghl_version := v,
               updated_at := Some ts\<rparr>) \<and>
   map fst (upsert_secret t k l b v ts rows) = map fst rows"
  by (induction rows) auto


subsection \<open>Single steps\<close>

lemma ask_Cons:
  "stdin w = ans # rest \<Longrightarrow>
   ask q w = (Resolved (trim ans), w\<lparr>stdin := rest, trace := trace w @ [Prompt q]\<rparr>)"
  by (simp add: ask_def emit_def)

lemma ask_Nil:
  "stdin w = [] \<Longrightarrow> ask q w = (Pending, w\<lparr>trace := trace w @ [Prompt q]\<rparr>)"
  by (simp add: ask_def emit_def)

lemma quiet_tl: "quiet fs \<Longrightarrow> quiet (tl fs)"
  by (cases fs) (auto simp: quiet_def)

lemma pool_query_quiet:
  assumes "quiet (faults w)"
  shows "pool_query q w =
    (case execute q (current_session w) (db_server w) of
       (Inl e, s, d) \<Rightarrow>
         (Rejected e, w\<lparr>trace := trace w @ [Query q], faults := tl (faults w), connection := Some s, db_server := d\<rparr>)
     | (Inr rows, s, d) \<Rightarrow>
         (Resolved rows, w\<lparr>trace := trace w @ [Query q], faults := tl (faults w), connection := Some s, db_server := d\<rparr>))"
  using assms
  by (cases "faults w") (auto simp: pool_query_def emit_def quiet_def Let_def split: option.splits prod.splits sum.splits)

lemma pool_query_fault:
  assumes "faults w = Some m # fs"
  shows "pool_query q w =
    (Rejected (Error m), w\<lparr>trace := trace w @ [Query q], faults := fs, connection := Some (fail_session (current_session w))\<rparr>)"
  using assms by (simp add: pool_query_def emit_def)

lemma console_logs_trace:
  "console_logs ls w = (Resolved (), w\<lparr>trace := trace w @ map ConsoleLog ls\<rparr>)"
  by (induction ls arbitrary: w) (simp_all add: resolve_def await_def console_log_def emit_def)

lemma report_trace:
  "report a tid k w =
     (Resolved (), w\<lparr>trace := trace w @ map ConsoleLog (report_lines a tid k
        @ (if ghlApiKey a = [] \<or> ghlLocationId a = [] then [skipped_note] else []))\<rparr>)"
  by (simp add: report_def await_def console_logs_trace console_log_def emit_def resolve_def)

lemma catch_handler_result:
  "fst (catch_handler e w) = Exited 1 \<and>
   trace (snd (catch_handler e w)) =
     trace w @ [Query Rollback, ConsoleError [failed_prefix, message e], ProcessExit 1] \<and>
   committed (db_server (snd (catch_handler e w))) = committed (db_server w) \<and>
   connection (snd (catch_handler e w)) = None"
  by (auto simp: catch_handler_def pool_query_def process_exit_def console_error_def emit_def Let_def
      split: list.splits option.splits prod.splits)

lemma catch_handler_quiet:
  assumes "quiet (faults w)"
  shows "catch_handler e w =
    (Exited 1, w\<lparr>trace := trace w @ [Query Rollback, ConsoleError [failed_prefix, message e], ProcessExit 1],
       faults := tl (faults w), connection := None\<rparr>)"
  using assms
  by (simp add: catch_handler_def pool_query_quiet process_exit_def console_error_def emit_def)

subsection \<open>The collector\<close>

lemma collect_six:
  assumes "stdin w = n # l # k # loc # b # v # rest" and "trim n \<noteq> []"
  shows "collect w =
    (Resolved \<lparr>name = trim n,
               label = or_default (trim l) (js ''primary''),
               ghlApiKey = trim k,
               ghlLocationId = trim loc,
               ghlBaseUrl = or_default (trim b) (js ''https://services.leadconnectorhq.com''),
               ghlVersion = or_default (trim v) (js ''2021-07-28'')\<rparr>,
     w\<lparr>stdin := rest,
       trace := trace w @ map Prompt [q_name, q_label, q_api_key, q_location_id, q_base_url, q_version]\<rparr>)"
  using assms by (simp add: collect_def await_def ask_Cons resolve_def)

lemma collect_blank_name:
  assumes "stdin w = n # rest" and "trim n = []"
  shows "collect w = (Rejected name_required, w\<lparr>stdin := rest, trace := trace w @ [Prompt q_name]\<rparr>)"
  using assms by (simp add: collect_def await_def ask_Cons throw_def)

lemma collect_frame:
  assumes "collect w = (r, w')"
  shows "db_server w' = db_server w \<and> connection w' = connection w \<and> faults w' = faults w"
  using assms
  by (auto simp: collect_def await_def ask_def emit_def resolve_def throw_def
      split: list.splits if_splits)

lemma collect_resolved:
  assumes "collect w = (Resolved a, w')"
  shows "\<exists>n l k loc b v rest. stdin w = n # l # k # loc # b # v # rest \<and> trim n \<noteq> [] \<and>
     a = \<lparr>name = trim n,
          label = or_default (trim l) (js ''primary''),
          ghlApiKey = trim k,
          ghlLocationId = trim loc,
          ghlBaseUrl = or_default (trim b) (js ''https://services.leadconnectorhq.com''),
          ghlVersion = or_default (trim v) (js ''2021-07-28'')\<rparr>"
  using assms
  by (auto simp: collect_def await_def ask_def emit_def resolve_def throw_def
      split: list.splits if_splits)

lemma store_secrets_skipped:
  "ghlApiKey a = [] \<Longrightarrow> ghlLocationId a = [] \<Longrightarrow> store_secrets a tid w = (Resolved (), w)"
  by (simp add: store_secrets_def resolve_def)

subsection \<open>The transaction\<close>

lemma write_tenant_quiet:
  assumes "quiet (faults w)" and "connection w = None"
    and "(ghlApiKey a = []) = (ghlLocationId a = [])"
  shows "write_tenant a h w =
    (Resolved (id_default (db_server w) (id_seq (db_server w))),
     w\<lparr>trace := trace w @ map Query ([Begin, InsertTenant (name a),
          InsertApiKey (id_default (db_server w) (id_seq (db_server w))) h (label a)]
          @ (if ghlApiKey a = [] then []
             else [UpsertTenantSecret (id_default (db_server w) (id_seq (db_server w)))
                     (ghlApiKey a) (ghlLocationId a) (ghlBaseUrl a) (ghlVersion a)])
          @ [Commit]),
       faults := (if ghlApiKey a = [] then tl (tl (tl (tl (faults w))))
                  else tl (tl (tl (tl (tl (faults w)))))),
       connection := Some Idle,
       db_server := (db_server w)\<lparr>id_seq := Suc (id_seq (db_server w)),
         committed := (committed (db_server w))\<lparr>
            tenants := tenants (committed (db_server w)) @ [(id_default (db_server w) (id_seq (db_server w)), name a)],
            api_keys := api_keys (committed (db_server w)) @ [(id_default (db_server w) (id_seq (db_server w)), h, label a)],
            tenant_secrets :=
              (if ghlApiKey a = [] then tenant_secrets (committed (db_server w))
               else upsert_secret (id_default (db_server w) (id_seq (db_server w)))
                      (ghlApiKey a) (ghlLocationId a) (ghlBaseUrl a) (ghlVersion a)
                      (now (db_server w)) (tenant_secrets (committed (db_server w))))\<rparr>\<rparr>\<rparr>)"
  using assms
  by (simp add: write_tenant_def store_secrets_def await_def resolve_def pool_query_quiet quiet_tl
      current_session_def run_data_statement_def Let_def)

lemma write_tenant_partial:
  assumes "quiet (faults w)" and "connection w = None"
    and "(ghlApiKey a = []) \<noteq> (ghlLocationId a = [])"
  shows "write_tenant a h w =
    (Rejected both_required,
     w\<lparr>trace := trace w @ map Query [Begin, InsertTenant (name a),
          InsertApiKey (id_default (db_server w) (id_seq (db_server w))) h (label a)],
       faults := tl (tl (tl (faults w))),
       connection := Some (InTransaction ((committed (db_server w))\<lparr>
            tenants := tenants (committed (db_server w)) @ [(id_default (db_server w) (id_seq (db_server w)), name a)],
            api_keys := api_keys (committed (db_server w)) @ [(id_default (db_server w) (id_seq (db_server w)), h, label a)]\<rparr>)),
       db_server := (db_server w)\<lparr>id_seq := Suc (id_seq (db_server w))\<rparr>\<rparr>)"
  using assms
  by (auto simp: write_tenant_def store_secrets_def await_def resolve_def throw_def pool_query_quiet quiet_tl
      current_session_def run_data_statement_def Let_def)

lemma write_tenant_atomic:
  assumes "connection w = None" and "write_tenant a h w = (r, w')"
  shows "(\<forall>tid. r \<noteq> Resolved tid) \<longrightarrow> committed (db_server w') = committed (db_server w)"
  using assms
  by (auto simp: write_tenant_def store_secrets_def await_def resolve_def throw_def pool_query_def
      current_session_def run_data_statement_def Let_def emit_def
      split: list.splits option.splits if_splits prod.splits sum.splits outcome.splits session.splits)

lemma write_tenant_resolved:
  assumes "connection w = None" and "write_tenant a h w = (Resolved tid, w')"
  shows "tid = id_default (db_server w) (id_seq (db_server w)) \<and>
         (ghlApiKey a = []) = (ghlLocationId a = []) \<and>
         connection w' = Some Idle \<and>
         committed (db_server w') = (committed (db_server w))\<lparr>
            tenants := tenants (committed (db_server w)) @ [(tid, name a)],
            api_keys := api_keys (committed (db_server w)) @ [(tid, h, label a)],
            tenant_secrets :=
              (if ghlApiKey a = [] then tenant_secrets (committed (db_server w))
               else upsert_secret tid (ghlApiKey a) (ghlLocationId a) (ghlBaseUrl a) (ghlVersion a)
                      (now (db_server w)) (tenant_secrets (committed (db_server w))))\<rparr>"
  using assms
  by (auto simp: write_tenant_def store_secrets_def await_def resolve_def throw_def pool_query_def
      current_session_def run_data_statement_def Let_def emit_def
      split: list.splits option.splits if_splits prod.splits sum.splits outcome.splits session.splits)

subsection \<open>No step of the transaction stays pending\<close>

lemma settles_pool_query: "settles (pool_query q)"
  by (auto simp: settles_def pool_query_def Let_def
      split: list.splits option.splits prod.splits sum.splits)

lemma settles_resolve: "settles (resolve x)"
  by (simp add: settles_def resolve_def)

lemma settles_throw: "settles (throw e)"
  by (simp add: settles_def throw_def)

lemma settles_await: "settles m \<Longrightarrow> (\<And>x. settles (f x)) \<Longrightarrow> settles (await m f)"
  unfolding settles_def await_def
  by (auto split: prod.splits outcome.splits) (metis fst_conv)+

lemma settles_store_secrets: "settles (store_secrets a tid)"
  by (simp add: store_secrets_def settles_await settles_pool_query settles_resolve settles_throw)

lemma settles_write_tenant: "settles (write_tenant a h)"
  unfolding write_tenant_def
  by (intro settles_await settles_pool_query settles_store_secrets settles_resolve)
     (simp add: settles_await settles_pool_query settles_store_secrets settles_resolve settles_throw
        split: list.splits)

subsection \<open>The body of the try and main\<close>

lemma try_block_unfold:
  "try_block rng w =
     (case collect w of
        (Resolved a, w1) \<Rightarrow>
          (case write_tenant a (sha256Hex (genApiKey rng)) w1 of
             (Resolved tid, w2) \<Rightarrow> report a tid (genApiKey rng) w2
           | (Rejected e, w2) \<Rightarrow> (Rejected e, w2)
           | (Pending, w2) \<Rightarrow> (Pending, w2))
      | (Rejected e, w1) \<Rightarrow> (Rejected e, w1)
      | (Pending, w1) \<Rightarrow> (Pending, w1))"
  by (simp add: try_block_def await_def Let_def split: prod.splits outcome.splits)

lemma try_block_frame:
  assumes "connection w = None" and "try_block rng w = (r, w')" and "r \<noteq> Resolved ()"
  shows "committed (db_server w') = committed (db_server w)"
proof (cases "collect w")
  case (Pair rc w1)
  note c = collect_frame [OF Pair]
  show ?thesis
  proof (cases rc)
    case (Resolved a)
    obtain rw w2 where wt: "write_tenant a (sha256Hex (genApiKey rng)) w1 = (rw, w2)"
      by (cases "write_tenant a (sha256Hex (genApiKey rng)) w1")
    have conn: "connection w1 = None" using c assms(1) by simp
    show ?thesis
    proof (cases rw)
      case (Resolved tid)
      with assms Pair \<open>rc = Resolved a\<close> wt show ?thesis
        by (simp add: try_block_unfold report_trace)
    next
      case (Rejected e)
      with assms Pair \<open>rc = Resolved a\<close> wt write_tenant_atomic [OF conn wt] c show ?thesis
        by (simp add: try_block_unfold)
    next
      case Pending
      with assms Pair \<open>rc = Resolved a\<close> wt write_tenant_atomic [OF conn wt] c show ?thesis
        by (simp add: try_block_unfold)
    qed
  next
    case (Rejected e)
    with assms Pair c show ?thesis by (simp add: try_block_unfold)
  next
    case Pending
    with assms Pair c show ?thesis by (simp add: try_block_unfold)
  qed
qed

lemma try_block_resolved:
  assumes "connection w = None" and "try_block rng w = (Resolved u, w')"
  shows "\<exists>a w1. collect w = (Resolved a, w1) \<and>
          (ghlApiKey a = []) = (ghlLocationId a = []) \<and>
          committed (db_server w') = (committed (db_server w))\<lparr>
            tenants := tenants (committed (db_server w))
              @ [(id_default (db_server w) (id_seq (db_server w)), name a)],
            api_keys := api_keys (committed (db_server w))
              @ [(id_default (db_server w) (id_seq (db_server w)), sha256Hex (genApiKey rng), label a)],
            tenant_secrets :=
              (if ghlApiKey a = [] then tenant_secrets (committed (db_server w))
               else upsert_secret (id_default (db_server w) (id_seq (db_server w)))
                      (ghlApiKey a) (ghlLocationId a) (ghlBaseUrl a) (ghlVersion a)
                      (now (db_server w)) (tenant_secrets (committed (db_server w))))\<rparr>"
proof -
  obtain rc w1 where c: "collect w = (rc, w1)" by (cases "collect w")
  from assms(2) c obtain a where rc: "rc = Resolved a"
    by (cases rc) (simp_all add: try_block_unfold)
  obtain rw w2 where wt: "write_tenant a (sha256Hex (genApiKey rng)) w1 = (rw, w2)"
    by (cases "write_tenant a (sha256Hex (genApiKey rng)) w1")
  from assms(2) c rc wt obtain tid where rw: "rw = Resolved tid"
    by (cases rw) (simp_all add: try_block_unfold)
  from assms(2) c rc wt rw have w': "db_server w' = db_server w2"
    by (auto simp: try_block_unfold report_trace)
  have conn: "connection w1 = None" and srv: "db_server w1 = db_server w"
    using collect_frame [OF c] assms(1) by simp_all
  from write_tenant_resolved [OF conn wt [unfolded rw]] c rc w' srv show ?thesis
    by simp
qed

lemma try_block_settles:
  assumes "stdin w = n # l # k # loc # b # v # rest"
  shows "fst (try_block rng w) \<noteq> Pending"
proof (cases "trim n = []")
  case True
  with assms show ?thesis by (simp add: try_block_unfold collect_blank_name)
next
  case False
  obtain rw w2 where wt: "write_tenant \<lparr>name = trim n, label = or_default (trim l) (js ''primary''),
               ghlApiKey = trim k, ghlLocationId = trim loc,
               ghlBaseUrl = or_default (trim b) (js ''https://services.leadconnectorhq.com''),
               ghlVersion = or_default (trim v) (js ''2021-07-28'')\<rparr>
            (sha256Hex (genApiKey rng))
            (w\<lparr>stdin := rest, trace := trace w @ map Prompt
               [q_name, q_label, q_api_key, q_location_id, q_base_url, q_version]\<rparr>) = (rw, w2)"
    by (rule prod.exhaust)
  with settles_write_tenant have "rw \<noteq> Pending"
    by (metis fst_conv settles_def)
  with assms False wt show ?thesis
    by (cases rw) (simp_all add: try_block_unfold collect_six report_trace)
qed

lemma main_unfold:
  assumes "DATABASE_URL env = Some url" and "url \<noteq> []"
  shows "main env rng w =
     (case try_block rng (new_pool url w) of
        (Resolved u, w') \<Rightarrow> (Returned, pool_end w')
      | (Rejected err, w') \<Rightarrow> catch_handler err w'
      | (Pending, w') \<Rightarrow> (Unsettled, w'))"
  using assms by (simp add: main_def)

lemma main_no_url:
  assumes "DATABASE_URL env = None \<or> DATABASE_URL env = Some []"
  shows "main env rng w =
     (Exited 1, w\<lparr>trace := trace w @ [ConsoleError [missing_url], ProcessExit 1], connection := None\<rparr>)"
  using assms by (auto simp: main_def process_exit_def console_error_def emit_def)

lemma main_atomic:
  assumes "fst (main env rng w) \<noteq> Returned"
  shows "committed (db_server (snd (main env rng w))) = committed (db_server w)"
proof (cases "DATABASE_URL env = None \<or> DATABASE_URL env = Some []")
  case True
  then show ?thesis by (simp add: main_no_url)
next
  case False
  then obtain url where url: "DATABASE_URL env = Some url" "url \<noteq> []" by auto
  obtain r w' where tb: "try_block rng (new_pool url w) = (r, w')"
    by (cases "try_block rng (new_pool url w)")
  have fresh: "connection (new_pool url w) = None" by (simp add: new_pool_def)
  have start: "committed (db_server (new_pool url w)) = committed (db_server w)"
    by (simp add: new_pool_def emit_def)
  show ?thesis
  proof (cases r)
    case (Resolved u)
    with assms url tb show ?thesis by (simp add: main_unfold)
  next
    case (Rejected e)
    with url tb try_block_frame [OF fresh tb] start show ?thesis
      by (simp add: main_unfold catch_handler_result)
  next
    case Pending
    with url tb try_block_frame [OF fresh tb] start show ?thesis
      by (simp add: main_unfold)
  qed
qed

lemma main_returned:
  assumes "fst (main env rng w) = Returned"
  shows "\<exists>n l k loc b v rest.
      stdin w = n # l # k # loc # b # v # rest \<and> trim n \<noteq> [] \<and>
      (trim k = []) = (trim loc = []) \<and>
      committed (db_server (snd (main env rng w))) = (committed (db_server w))\<lparr>
        tenants := tenants (committed (db_server w))
          @ [(id_default (db_server w) (id_seq (db_server w)), trim n)],
        api_keys := api_keys (committed (db_server w))
          @ [(id_default (db_server w) (id_seq (db_server w)), sha256Hex (genApiKey rng),
              or_default (trim l) (js ''primary''))],
        tenant_secrets :=
          (if trim k = [] then tenant_secrets (committed (db_server w))
           else upsert_secret (id_default (db_server w) (id_seq (db_server w)))
                  (trim k) (trim loc)
                  (or_default (trim b) (js ''https://services.leadconnectorhq.com''))
                  (or_default (trim v) (js ''2021-07-28''))
                  (now (db_server w)) (tenant_secrets (committed (db_server w))))\<rparr>"
proof -
  from assms obtain url where url: "DATABASE_URL env = Some url" "url \<noteq> []"
    by (cases "DATABASE_URL env = None \<or> DATABASE_URL env = Some []") (auto simp: main_no_url)
  obtain r w' where tb: "try_block rng (new_pool url w) = (r, w')"
    by (cases "try_block rng (new_pool url w)")
  from assms url tb obtain u where r: "r = Resolved u"
    by (cases r) (simp_all add: main_unfold catch_handler_result)
  have fresh: "connection (new_pool url w) = None" by (simp add: new_pool_def)
  from try_block_resolved [OF fresh tb [unfolded r]]
  obtain a w1 where a: "collect (new_pool url w) = (Resolved a, w1)"
    "(ghlApiKey a = []) = (ghlLocationId a = [])"
    "committed (db_server w') = (committed (db_server w))\<lparr>
            tenants := tenants (committed (db_server w))
              @ [(id_default (db_server w) (id_seq (db_server w)), name a)],
            api_keys := api_keys (committed (db_server w))
              @ [(id_default (db_server w) (id_seq (db_server w)), sha256Hex (genApiKey rng), label a)],
            tenant_secrets :=
              (if ghlApiKey a = [] then tenant_secrets (committed (db_server w))
               else upsert_secret (id_default (db_server w) (id_seq (db_server w)))
                      (ghlApiKey a) (ghlLocationId a) (ghlBaseUrl a) (ghlVersion a)
                      (now (db_server w)) (tenant_secrets (committed (db_server w))))\<rparr>"
    by (auto simp: new_pool_def emit_def)
  from collect_resolved [OF a(1)] obtain n l k loc b v rest where
    lines: "stdin w = n # l # k # loc # b # v # rest" "trim n \<noteq> []"
      "a = \<lparr>name = trim n,
          label = or_default (trim l) (js ''primary''),
          ghlApiKey = trim k,
          ghlLocationId = trim loc,
          ghlBaseUrl = or_default (trim b) (js ''https://services.leadconnectorhq.com''),
          ghlVersion = or_default (trim v) (js ''2021-07-28'')\<rparr>"
    by (auto simp: new_pool_def emit_def)
  have "committed (db_server (snd (main env rng w))) = committed (db_server w')"
    using url tb r by (simp add: main_unfold pool_end_def emit_def)
  with a(2,3) lines show ?thesis by simp
qed

lemma main_success:
  fixes n l k loc b v :: jsstring
  defines "a \<equiv> \<lparr>name = trim n,
               label = or_default (trim l) (js ''primary''),
               ghlApiKey = trim k,
               ghlLocationId = trim loc,
               ghlBaseUrl = or_default (trim b) (js ''https://services.leadconnectorhq.com''),
               ghlVersion = or_default (trim v) (js ''2021-07-28'')\<rparr>"
  assumes "DATABASE_URL env = Some url" and "url \<noteq> []"
    and "stdin w = n # l # k # loc # b # v # rest"
    and "trim n \<noteq> []" and "(trim k = []) = (trim loc = [])"
    and "quiet (faults w)"
  shows "main env rng w =
    (Returned,
     w\<lparr>stdin := rest,
       trace := trace w @ [PoolCreated url]
         @ map Prompt [q_name, q_label, q_api_key, q_location_id, q_base_url, q_version]
         @ map Query ([Begin, InsertTenant (trim n),
              InsertApiKey (id_default (db_server w) (id_seq (db_server w)))
                (sha256Hex (genApiKey rng)) (label a)]
            @ (if trim k = [] then []
               else [UpsertTenantSecret (id_default (db_server w) (id_seq (db_server w)))
                       (trim k) (trim loc) (ghlBaseUrl a) (ghlVersion a)])
            @ [Commit])
         @ map ConsoleLog (report_lines a (id_default (db_server w) (id_seq (db_server w))) (genApiKey rng)
            @ (if trim k = [] then [skipped_note] else []))
         @ [PoolEnd],
       faults := (if trim k = [] then tl (tl (tl (tl (faults w))))
                  else tl (tl (tl (tl (tl (faults w)))))),
       connection := None,
       db_server := (db_server w)\<lparr>id_seq := Suc (id_seq (db_server w)),
         committed := (committed (db_server w))\<lparr>
            tenants := tenants (committed (db_server w))
              @ [(id_default (db_server w) (id_seq (db_server w)), trim n)],
            api_keys := api_keys (committed (db_server w))
              @ [(id_default (db_server w) (id_seq (db_server w)), sha256Hex (genApiKey rng), label a)],
            tenant_secrets :=
              (if trim k = [] then tenant_secrets (committed (db_server w))
               else upsert_secret (id_default (db_server w) (id_seq (db_server w)))
                      (trim k) (trim loc) (ghlBaseUrl a) (ghlVersion a)
                      (now (db_server w)) (tenant_secrets (committed (db_server w))))\<rparr>\<rparr>\<rparr>)"
  using assms(2-)
  by (simp add: main_unfold try_block_unfold new_pool_def emit_def collect_six write_tenant_quiet
      report_trace pool_end_def a_def)

lemma main_partial_exits:
  assumes "stdin w = n # l # k # loc # b # v # rest" and "(trim k = []) \<noteq> (trim loc = [])"
  shows "fst (main env rng w) = Exited 1 \<and> connection (snd (main env rng w)) = None"
proof (cases "DATABASE_URL env = None \<or> DATABASE_URL env = Some []")
  case True
  then show ?thesis by (simp add: main_no_url)
next
  case False
  then obtain url where url: "DATABASE_URL env = Some url" "url \<noteq> []" by auto
  obtain r w' where tb: "try_block rng (new_pool url w) = (r, w')"
    by (cases "try_block rng (new_pool url w)")
  have fresh: "connection (new_pool url w) = None" by (simp add: new_pool_def)
  have lines: "stdin (new_pool url w) = n # l # k # loc # b # v # rest"
    using assms(1) by (simp add: new_pool_def emit_def)
  have "r \<noteq> Pending"
    using try_block_settles [OF lines, of rng] tb by simp
  moreover have "r \<noteq> Resolved u" for u
  proof
    assume "r = Resolved u"
    from try_block_resolved [OF fresh tb [unfolded this]] obtain a w1 where
      a: "collect (new_pool url w) = (Resolved a, w1)" "(ghlApiKey a = []) = (ghlLocationId a = [])"
      by blast
    from collect_resolved [OF a(1)] lines a(2) assms(2) show False by auto
  qed
  ultimately obtain e where "r = Rejected e" by (cases r) auto
  with url tb show ?thesis by (simp add: main_unfold catch_handler_result)
qed

lemma main_partial_trace:
  assumes "DATABASE_URL env = Some url" and "url \<noteq> []"
    and "stdin w = n # l # k # loc # b # v # rest"
    and "trim n \<noteq> []" and "(trim k = []) \<noteq> (trim loc = [])"
    and "quiet (faults w)"
  shows "main env rng w =
    (Exited 1,
     w\<lparr>stdin := rest,
       trace := trace w @ [PoolCreated url]
         @ map Prompt [q_name, q_label, q_api_key, q_location_id, q_base_url, q_version]
         @ map Query [Begin, InsertTenant (trim n),
              InsertApiKey (id_default (db_server w) (id_seq (db_server w)))
                (sha256Hex (genApiKey rng)) (or_default (trim l) (js ''primary'')),
              Rollback]
         @ [ConsoleError [failed_prefix, message both_required], ProcessExit 1],
       faults := tl (tl (tl (tl (faults w)))),
       connection := None,
       db_server := (db_server w)\<lparr>id_seq := Suc (id_seq (db_server w))\<rparr>\<rparr>)"
  using assms
  by (simp add: main_unfold try_block_unfold new_pool_def emit_def collect_six write_tenant_partial
      catch_handler_quiet quiet_tl)

subsection \<open>The re-run\<close>





subsection \<open>A run reads the operator's lines through trim\<close>

lemma reads_trimmed_ask: "reads_trimmed (ask q)"
  by (auto simp: reads_trimmed_def ask_def trimmed_def emit_def trim_idem split: list.splits)

lemma reads_trimmed_pool_query: "reads_trimmed (pool_query q)"
  by (auto simp: reads_trimmed_def pool_query_def trimmed_def emit_def current_session_def Let_def
      split: list.splits option.splits prod.splits sum.splits)

lemma reads_trimmed_resolve: "reads_trimmed (resolve x)"
  by (simp add: reads_trimmed_def resolve_def)

lemma reads_trimmed_throw: "reads_trimmed (throw e)"
  by (simp add: reads_trimmed_def throw_def)

lemma reads_trimmed_console_log: "reads_trimmed (console_log s)"
  by (simp add: reads_trimmed_def console_log_def trimmed_def emit_def)

lemma reads_trimmed_await:
  assumes "reads_trimmed m" and "\<And>x. reads_trimmed (f x)"
  shows "reads_trimmed (await m f)"
  unfolding reads_trimmed_def
proof
  fix w
  obtain r w1 where m: "m w = (r, w1)" by (cases "m w")
  with assms(1) have mt: "m (trimmed w) = (r, trimmed w1)" by (simp add: reads_trimmed_def)
  show "await m f (trimmed w) = (case await m f w of (r, w') \<Rightarrow> (r, trimmed w'))"
  proof (cases r)
    case (Resolved x)
    with m mt assms(2) [of x] show ?thesis by (simp add: await_def reads_trimmed_def)
  qed (use m mt in \<open>simp_all add: await_def\<close>)
qed

lemma reads_trimmed_collect: "reads_trimmed collect"
  unfolding collect_def
  by (intro reads_trimmed_await reads_trimmed_ask)
     (simp add: reads_trimmed_await reads_trimmed_ask reads_trimmed_throw reads_trimmed_resolve)

lemma reads_trimmed_store_secrets: "reads_trimmed (store_secrets a tid)"
  by (simp add: store_secrets_def reads_trimmed_await reads_trimmed_pool_query
      reads_trimmed_resolve reads_trimmed_throw)

lemma reads_trimmed_write_tenant: "reads_trimmed (write_tenant a h)"
  unfolding write_tenant_def
  by (intro reads_trimmed_await reads_trimmed_pool_query)
     (simp add: reads_trimmed_await reads_trimmed_pool_query reads_trimmed_store_secrets
        reads_trimmed_resolve reads_trimmed_throw split: list.splits)

lemma reads_trimmed_console_logs: "reads_trimmed (console_logs ls)"
  by (induction ls)
     (simp_all add: reads_trimmed_await reads_trimmed_console_log reads_trimmed_resolve)

lemma reads_trimmed_report: "reads_trimmed (report a tid k)"
  by (simp add: report_def reads_trimmed_await reads_trimmed_console_logs
      reads_trimmed_console_log reads_trimmed_resolve)

lemma reads_trimmed_try_block: "reads_trimmed (try_block rng)"
  by (simp add: try_block_def Let_def reads_trimmed_await reads_trimmed_collect
      reads_trimmed_write_tenant reads_trimmed_report)

lemma catch_handler_trimmed:
  "catch_handler e (trimmed w) = (case catch_handler e w of (st, w') \<Rightarrow> (st, trimmed w'))"
proof -
  obtain r w1 where q: "pool_query Rollback w = (r, w1)" by (cases "pool_query Rollback w")
  with reads_trimmed_pool_query [of Rollback]
  have "pool_query Rollback (trimmed w) = (r, trimmed w1)" by (simp add: reads_trimmed_def)
  with q show ?thesis
    by (simp add: catch_handler_def process_exit_def console_error_def emit_def trimmed_def)
qed

lemma main_trimmed:
  "main env rng (trimmed w) = (case main env rng w of (st, w') \<Rightarrow> (st, trimmed w'))"
proof (cases "DATABASE_URL env = None \<or> DATABASE_URL env = Some []")
  case True
  then show ?thesis by (simp add: main_no_url trimmed_def)
next
  case False
  then obtain url where url: "DATABASE_URL env = Some url" "url \<noteq> []" by auto
  have pool: "new_pool url (trimmed w) = trimmed (new_pool url w)"
    by (simp add: new_pool_def emit_def trimmed_def)
  obtain r w1 where tb: "try_block rng (new_pool url w) = (r, w1)"
    by (cases "try_block rng (new_pool url w)")
  with reads_trimmed_try_block [of rng]
  have tbt: "try_block rng (trimmed (new_pool url w)) = (r, trimmed w1)"
    by (simp add: reads_trimmed_def)
  show ?thesis
  proof (cases r)
    case (Resolved u)
    with url pool tb tbt show ?thesis
      by (simp add: main_unfold pool_end_def emit_def trimmed_def)
  next
    case (Rejected e)
    with url pool tb tbt show ?thesis
      by (simp add: main_unfold catch_handler_trimmed)
  next
    case Pending
    with url pool tb tbt show ?thesis by (simp add: main_unfold)
  qed
qed

lemma main_same_trimmed:
  assumes "map trim (stdin w1) = map trim (stdin w2)"
    and "w1\<lparr>stdin := []\<rparr> = w2\<lparr>stdin := []\<rparr>"
  shows "fst (main env rng w1) = fst (main env rng w2) \<and>
         trace (snd (main env rng w1)) = trace (snd (main env rng w2)) \<and>
         db_server (snd (main env rng w1)) = db_server (snd (main env rng w2))"
proof -
  have "trimmed w1 = (w1\<lparr>stdin := []\<rparr>)\<lparr>stdin := map trim (stdin w1)\<rparr>"
    by (simp add: trimmed_def)
  also have "\<dots> = (w2\<lparr>stdin := []\<rparr>)\<lparr>stdin := map trim (stdin w2)\<rparr>"
    using assms by simp
  also have "\<dots> = trimmed w2" by (simp add: trimmed_def)
  finally have "main env rng (trimmed w1) = main env rng (trimmed w2)" by simp
  then have eq: "(case main env rng w1 of (st, w') \<Rightarrow> (st, trimmed w')) =
             (case main env rng w2 of (st, w') \<Rightarrow> (st, trimmed w'))"
    by (simp add: main_trimmed)
  obtain s1 v1 where m1: "main env rng w1 = (s1, v1)" by (cases "main env rng w1")
  obtain s2 v2 where m2: "main env rng w2 = (s2, v2)" by (cases "main env rng w2")
  from eq m1 m2 have "s1 = s2" and "trimmed v1 = trimmed v2" by simp_all
  then have "s1 = s2" and "trace (trimmed v1) = trace (trimmed v2)"
    and "db_server (trimmed v1) = db_server (trimmed v2)" by simp_all
  with m1 m2 show ?thesis by (simp add: trimmed_def)
qed

subsection \<open>When the pool is ended\<close>

text \<open>
  The pool is ended exactly in the runs that return: the body of the \<open>try\<close> never ends
  it, the \<open>finally\<close> block does, and the \<open>catch\<close> handler exits before that block.
\<close>

lemma never_ends_pool_ask: "never_ends_pool (ask q)"
  by (auto simp: never_ends_pool_def ask_def emit_def split: list.splits)

lemma never_ends_pool_pool_query: "never_ends_pool (pool_query q)"
  by (auto simp: never_ends_pool_def pool_query_def emit_def Let_def
      split: list.splits option.splits prod.splits sum.splits)

lemma never_ends_pool_resolve: "never_ends_pool (resolve x)"
  by (simp add: never_ends_pool_def resolve_def)

lemma never_ends_pool_throw: "never_ends_pool (throw e)"
  by (simp add: never_ends_pool_def throw_def)

lemma never_ends_pool_console_log: "never_ends_pool (console_log s)"
  by (simp add: never_ends_pool_def console_log_def emit_def)

lemma never_ends_pool_await:
  assumes "never_ends_pool m" and "\<And>x. never_ends_pool (f x)"
  shows "never_ends_pool (await m f)"
  unfolding never_ends_pool_def
proof
  fix w
  obtain r w1 where m: "m w = (r, w1)" by (cases "m w")
  with assms(1) have step: "(PoolEnd \<in> set (trace w1)) = (PoolEnd \<in> set (trace w))"
    by (metis never_ends_pool_def snd_conv)
  show "(PoolEnd \<in> set (trace (snd (await m f w)))) = (PoolEnd \<in> set (trace w))"
  proof (cases r)
    case (Resolved x)
    with m step assms(2) [of x] show ?thesis by (simp add: await_def never_ends_pool_def)
  qed (use m step in \<open>simp_all add: await_def\<close>)
qed

lemma never_ends_pool_try_block: "never_ends_pool (try_block rng)"
proof -
  have c: "never_ends_pool collect"
    unfolding collect_def
    by (intro never_ends_pool_await never_ends_pool_ask)
       (simp add: never_ends_pool_await never_ends_pool_ask never_ends_pool_throw
          never_ends_pool_resolve)
  have s: "never_ends_pool (store_secrets a tid)" for a tid
    by (simp add: store_secrets_def never_ends_pool_await never_ends_pool_pool_query
        never_ends_pool_resolve never_ends_pool_throw)
  have wt: "never_ends_pool (write_tenant a h)" for a h
    unfolding write_tenant_def
    by (intro never_ends_pool_await never_ends_pool_pool_query)
       (simp add: never_ends_pool_await never_ends_pool_pool_query s never_ends_pool_resolve
          never_ends_pool_throw split: list.splits)
  have r: "never_ends_pool (report a tid k)" for a tid k
    by (auto simp: never_ends_pool_def report_trace report_lines_def)
  show ?thesis
    by (simp add: try_block_def Let_def never_ends_pool_await c wt r)
qed

lemma pool_ended_iff_returned:
  assumes "PoolEnd \<notin> set (trace w)"
  shows "(PoolEnd \<in> set (trace_after env rng w)) = (fst (main env rng w) = Returned)"
proof (cases "DATABASE_URL env = None \<or> DATABASE_URL env = Some []")
  case True
  with assms show ?thesis by (simp add: main_no_url)
next
  case False
  then obtain url where url: "DATABASE_URL env = Some url" "url \<noteq> []" by auto
  obtain r w' where tb: "try_block rng (new_pool url w) = (r, w')"
    by (cases "try_block rng (new_pool url w)")
  have "PoolEnd \<notin> set (trace (new_pool url w))"
    using assms by (simp add: new_pool_def emit_def)
  with never_ends_pool_try_block [of rng] tb have none: "PoolEnd \<notin> set (trace w')"
    by (metis never_ends_pool_def snd_conv)
  show ?thesis
  proof (cases r)
    case (Resolved u)
    with url tb show ?thesis by (simp add: main_unfold pool_end_def emit_def)
  next
    case (Rejected e)
    with url tb none show ?thesis by (simp add: main_unfold catch_handler_result)
  next
    case Pending
    with url tb none show ?thesis by (simp add: main_unfold)
  qed
qed

subsection \<open>The pool accessor\<close>

lemma db_again: "db env m = (r, m') \<Longrightarrow> db env' m' = (r, m')"
  by (auto simp: db_def Let_def split: option.splits)

lemma db_calls_memo: "pool m = Some r \<Longrightarrow> db_calls n env m = (replicate n r, m)"
  by (induction n) (simp_all add: db_def)

lemma db_first:
  "pool m = None \<Longrightarrow>
   db env m = (length (constructed m),
     m\<lparr>pool := Some (length (constructed m)),
       constructed := constructed m @
         [\<lparr>connectionString = DATABASE_URL env,
           rejectUnauthorized = (if NODE_ENV env = Some (js ''production'') then Some False else None)\<rparr>]\<rparr>)"
  by (simp add: db_def Let_def)

lemma db_calls_first:
  "pool m = None \<Longrightarrow>
   db_calls (Suc n) env m = (replicate (Suc n) (length (constructed m)),
     m\<lparr>pool := Some (length (constructed m)),
       constructed := constructed m @
         [\<lparr>connectionString = DATABASE_URL env,
           rejectUnauthorized = (if NODE_ENV env = Some (js ''production'') then Some False else None)\<rparr>]\<rparr>)"
  by (simp add: db_first db_calls_memo)

lemma db_calls_at_most_once:
  "length (constructed (snd (db_calls n env m))) \<le> Suc (length (constructed m))"
proof (cases "pool m")
  case None
  then show ?thesis by (cases n) (simp_all add: db_calls_first del: db_calls.simps(2))
next
  case (Some r)
  then show ?thesis by (simp add: db_calls_memo)
qed

section \<open>The claims\<close>

text \<open>
  Claim C1. When the inputs are valid and no query fails, the run returns and has
  committed exactly one new row in \<open>tenants\<close>, one new row in \<open>api_keys\<close>, and in
  \<open>tenant_secrets\<close> nothing (both third-party fields blank) or the upsert of one row:
  at most one row more, every row of another tenant as it was. A run that does not
  return leaves the three tables as other sessions saw them before it. And a run that
  returns has always written the full set, never a part of it.
\<close>

theorem provisioning_all_or_nothing:
  "(DATABASE_URL env = Some url \<and> url \<noteq> [] \<and> stdin w = n # l # k # loc # b # v # rest \<and>
    trim n \<noteq> [] \<and> (trim k = []) = (trim loc = []) \<and> quiet (faults w) \<longrightarrow>
      fst (main env rng w) = Returned \<and>
      tenants (tables_after env rng w) = tenants (tables_before w) @ [(new_id w, trim n)] \<and>
      api_keys (tables_after env rng w) =
        api_keys (tables_before w)
          @ [(new_id w, sha256Hex (genApiKey rng), or_default (trim l) (js ''primary''))] \<and>
      tenant_secrets (tables_after env rng w) =
        (if trim k = [] then tenant_secrets (tables_before w)
         else upsert_secret (new_id w) (trim k) (trim loc)
                (or_default (trim b) (js ''https://services.leadconnectorhq.com''))
                (or_default (trim v) (js ''2021-07-28''))
                (now (db_server w)) (tenant_secrets (tables_before w))) \<and>
      length (tenant_secrets (tables_after env rng w)) \<le> Suc (length (tenant_secrets (tables_before w))) \<and>
      filter (\<lambda>r. fst r \<noteq> new_id w) (tenant_secrets (tables_after env rng w)) =
        filter (\<lambda>r. fst r \<noteq> new_id w) (tenant_secrets (tables_before w)))
   \<and> (fst (main env rng w) \<noteq> Returned \<longrightarrow> tables_after env rng w = tables_before w)
   \<and> (fst (main env rng w) = Returned \<longrightarrow>
        (\<exists>nm lbl. tenants (tables_after env rng w) = tenants (tables_before w) @ [(new_id w, nm)] \<and>
           api_keys (tables_after env rng w) =
             api_keys (tables_before w) @ [(new_id w, sha256Hex (genApiKey rng), lbl)] \<and>
           (tenant_secrets (tables_after env rng w) = tenant_secrets (tables_before w) \<or>
            (\<exists>k' l' b' v'. tenant_secrets (tables_after env rng w) =
               upsert_secret (new_id w) k' l' b' v' (now (db_server w))
                 (tenant_secrets (tables_before w))))))"
proof (intro conjI impI)
  assume ok: "DATABASE_URL env = Some url \<and> url \<noteq> [] \<and> stdin w = n # l # k # loc # b # v # rest \<and>
    trim n \<noteq> [] \<and> (trim k = []) = (trim loc = []) \<and> quiet (faults w)"
  then have run: "fst (main env rng w) = Returned"
    and tabs: "tables_after env rng w = (tables_before w)\<lparr>
       tenants := tenants (tables_before w) @ [(new_id w, trim n)],
       api_keys := api_keys (tables_before w)
          @ [(new_id w, sha256Hex (genApiKey rng), or_default (trim l) (js ''primary''))],
       tenant_secrets :=
        (if trim k = [] then tenant_secrets (tables_before w)
         else upsert_secret (new_id w) (trim k) (trim loc)
                (or_default (trim b) (js ''https://services.leadconnectorhq.com''))
                (or_default (trim v) (js ''2021-07-28''))
                (now (db_server w)) (tenant_secrets (tables_before w)))\<rparr>"
    by (simp_all add: main_success)
  from run show "fst (main env rng w) = Returned" .
  from tabs show "tenants (tables_after env rng w) = tenants (tables_before w) @ [(new_id w, trim n)]"
    by simp
  from tabs show "api_keys (tables_after env rng w) =
        api_keys (tables_before w)
          @ [(new_id w, sha256Hex (genApiKey rng), or_default (trim l) (js ''primary''))]"
    by simp
  from tabs show ts: "tenant_secrets (tables_after env rng w) =
        (if trim k = [] then tenant_secrets (tables_before w)
         else upsert_secret (new_id w) (trim k) (trim loc)
                (or_default (trim b) (js ''https://services.leadconnectorhq.com''))
                (or_default (trim v) (js ''2021-07-28''))
                (now (db_server w)) (tenant_secrets (tables_before w)))"
    by simp
  from ts show "length (tenant_secrets (tables_after env rng w)) \<le> Suc (length (tenant_secrets (tables_before w)))"
    by (simp add: upsert_secret_length)
  from ts show "filter (\<lambda>r. fst r \<noteq> new_id w) (tenant_secrets (tables_after env rng w)) =
        filter (\<lambda>r. fst r \<noteq> new_id w) (tenant_secrets (tables_before w))"
    by (simp add: upsert_secret_others)
next
  assume "fst (main env rng w) \<noteq> Returned"
  then show "tables_after env rng w = tables_before w" by (rule main_atomic)
next
  assume "fst (main env rng w) = Returned"
  from main_returned [OF this] obtain n l k loc b v where
    tabs: "tables_after env rng w = (tables_before w)\<lparr>
        tenants := tenants (tables_before w) @ [(new_id w, trim n)],
        api_keys := api_keys (tables_before w)
          @ [(new_id w, sha256Hex (genApiKey rng), or_default (trim l) (js ''primary''))],
        tenant_secrets :=
          (if trim k = [] then tenant_secrets (tables_before w)
           else upsert_secret (new_id w) (trim k) (trim loc)
                  (or_default (trim b) (js ''https://services.leadconnectorhq.com''))
                  (or_default (trim v) (js ''2021-07-28''))
                  (now (db_server w)) (tenant_secrets (tables_before w)))\<rparr>"
    by blast
  show "\<exists>nm lbl. tenants (tables_after env rng w) = tenants (tables_before w) @ [(new_id w, nm)] \<and>
           api_keys (tables_after env rng w) =
             api_keys (tables_before w) @ [(new_id w, sha256Hex (genApiKey rng), lbl)] \<and>
           (tenant_secrets (tables_after env rng w) = tenant_secrets (tables_before w) \<or>
            (\<exists>k' l' b' v'. tenant_secrets (tables_after env rng w) =
               upsert_secret (new_id w) k' l' b' v' (now (db_server w))
                 (tenant_secrets (tables_before w))))"
    by (subst (1 2 3 4) tabs) auto
qed

theorem provisioning_all_or_nothing_witness:
  "fst (main example_env example_rng (example_world example_lines [])) = Returned \<and>
   tenants (tables_after example_env example_rng (example_world example_lines []))
     = [(id_default example_database 0, js ''Acme Corp'')] \<and>
   api_keys (tables_after example_env example_rng (example_world example_lines []))
     = [(id_default example_database 0, sha256Hex (genApiKey example_rng), js ''primary'')] \<and>
   tenant_secrets (tables_after example_env example_rng (example_world example_lines []))
     = [(id_default example_database 0,
         \<lparr>ghl_api_key = js ''ghl-key'', ghl_location_id = js ''loc-42'',
          ghl_base_url = js ''https://services.leadconnectorhq.com'',
          ghl_version = js ''2021-07-28'', updated_at = None\<rparr>)] \<and>
   fst (main example_env example_rng (example_world partial_lines [])) \<noteq> Returned \<and>
   tables_after example_env example_rng (example_world partial_lines [])
     = \<lparr>tenants = [], api_keys = [], tenant_secrets = []\<rparr>"
  using provisioning_all_or_nothing [where env = example_env and rng = example_rng
      and w = "example_world example_lines []" and url = "js ''postgres://localhost/app''"
      and n = "js '' Acme Corp ''" and l = "[]" and k = "js ''ghl-key''" and loc = "js ''loc-42''"
      and b = "[]" and v = "js '' ''" and rest = "[]"]
    provisioning_all_or_nothing [where env = example_env and rng = example_rng
      and w = "example_world partial_lines []"]
    main_partial_exits [where env = example_env and rng = example_rng
      and w = "example_world partial_lines []" and n = "js ''Acme Corp''" and l = "js ''ci''"
      and k = "js ''ghl-key''" and loc = "js ''  ''" and b = "[]" and v = "[]" and rest = "[]"]
  by (simp add: example_env_def example_world_def example_lines_def partial_lines_def
      example_database_def trim_examples trim_Nil js_eq_Nil quiet_def or_default_def)

text \<open>
  Claim C2. When exactly one of the GHL API key and the GHL location id is blank, the
  run exits with code 1 and leaves the three tables as they were, with no transaction
  left open, whatever the environment and the failures of the server. When the run
  gets as far as the check (\<open>DATABASE_URL\<close> is set, the tenant name is not blank, no
  query fails), the error it reports is the validation error of the check, after
  \<open>begin\<close>, the two inserts and the \<open>rollback\<close>: no upsert and no \<open>commit\<close> is sent.
\<close>

theorem partial_credentials_rejected:
  assumes "stdin w = n # l # k # loc # b # v # rest"
    and "(trim k = []) \<noteq> (trim loc = [])"
  shows "exit_code (fst (main env rng w)) = Some 1 \<and>
         tables_after env rng w = tables_before w \<and>
         connection (snd (main env rng w)) = None \<and>
         (DATABASE_URL env = Some url \<and> url \<noteq> [] \<and> trim n \<noteq> [] \<and> quiet (faults w) \<longrightarrow>
            trace_after env rng w =
              trace w @ [PoolCreated url]
                @ map Prompt [q_name, q_label, q_api_key, q_location_id, q_base_url, q_version]
                @ map Query [Begin, InsertTenant (trim n),
                    InsertApiKey (new_id w) (sha256Hex (genApiKey rng))
                      (or_default (trim l) (js ''primary'')),
                    Rollback]
                @ [ConsoleError [failed_prefix, message both_required], ProcessExit 1])"
proof -
  have exits: "fst (main env rng w) = Exited 1" and closed: "connection (snd (main env rng w)) = None"
    using main_partial_exits [OF assms] by simp_all
  from exits have "tables_after env rng w = tables_before w"
    by (intro main_atomic) simp
  moreover have "trace_after env rng w =
              trace w @ [PoolCreated url]
                @ map Prompt [q_name, q_label, q_api_key, q_location_id, q_base_url, q_version]
                @ map Query [Begin, InsertTenant (trim n),
                    InsertApiKey (new_id w) (sha256Hex (genApiKey rng))
                      (or_default (trim l) (js ''primary'')),
                    Rollback]
                @ [ConsoleError [failed_prefix, message both_required], ProcessExit 1]"
    if "DATABASE_URL env = Some url" "url \<noteq> []" "trim n \<noteq> []" "quiet (faults w)"
    using main_partial_trace [OF that(1,2) assms(1) that(3) assms(2) that(4), of rng] by simp
  ultimately show ?thesis using exits closed by simp
qed

theorem partial_credentials_rejected_witness:
  "exit_code (fst (main example_env example_rng (example_world partial_lines []))) = Some 1 \<and>
   tables_after example_env example_rng (example_world partial_lines [])
     = \<lparr>tenants = [], api_keys = [], tenant_secrets = []\<rparr> \<and>
   trace_after example_env example_rng (example_world partial_lines []) =
     [PoolCreated (js ''postgres://localhost/app''),
      Prompt q_name, Prompt q_label, Prompt q_api_key, Prompt q_location_id, Prompt q_base_url,
      Prompt q_version,
      Query Begin, Query (InsertTenant (js ''Acme Corp'')),
      Query (InsertApiKey (id_default example_database 0) (sha256Hex (genApiKey example_rng)) (js ''ci'')),
      Query Rollback,
      ConsoleError [failed_prefix,
        js ''If you provide GHL credentials, you must provide BOTH API key and Location ID.''],
      ProcessExit 1]"
  using partial_credentials_rejected [where env = example_env and rng = example_rng
      and w = "example_world partial_lines []" and n = "js ''Acme Corp''" and l = "js ''ci''"
      and k = "js ''ghl-key''" and loc = "js ''  ''" and b = "[]" and v = "[]" and rest = "[]"
      and url = "js ''postgres://localhost/app''"]
  by (simp add: example_env_def example_world_def partial_lines_def
      example_database_def trim_examples trim_Nil js_eq_Nil quiet_def or_default_def both_required_def)

text \<open>
  Claim C3. The claim is that \<open>pool.end()\<close> is called on every exit path. With a blank
  tenant name the body of the \<open>try\<close> throws, the \<open>catch\<close> handler calls
  \<open>process.exit(1)\<close>, and the process ends there: the \<open>finally\<close> block is not reached
  and the pool that was created is never ended. The same holds on every path through
  the handler (\<open>pool_ended_iff_returned\<close>).
\<close>

theorem pool_left_open_on_failure:
  "fst (main example_env example_rng (example_world [[]] [])) = Exited 1 \<and>
   trace (snd (main example_env example_rng (example_world [[]] []))) =
     [PoolCreated (js ''postgres://localhost/app''), Prompt q_name, Query Rollback,
      ConsoleError [failed_prefix, js ''Tenant name is required.''], ProcessExit 1] \<and>
   PoolEnd \<notin> set (trace (snd (main example_env example_rng (example_world [[]] []))))"
  by (simp add: main_def example_env_def example_world_def js_not_Nil try_block_unfold
      new_pool_def emit_def collect_blank_name trim_Nil catch_handler_result name_required_def)

text \<open>
  Claim C4. If \<open>DATABASE_URL\<close> is absent, the process prints an error message and exits
  with code 1; the run constructs no pool and sends no query: the two events are all it
  does, and the database is as it was.
\<close>

theorem missing_database_url_exits:
  assumes "DATABASE_URL env = None"
  shows "fst (main env rng w) = Exited 1 \<and>
         trace (snd (main env rng w)) = trace w @ [ConsoleError [missing_url], ProcessExit 1] \<and>
         db_server (snd (main env rng w)) = db_server w \<and>
         stdin (snd (main env rng w)) = stdin w"
  using assms by (simp add: main_no_url)

theorem missing_database_url_exits_witness:
  "DATABASE_URL (example_env\<lparr>DATABASE_URL := None\<rparr>) = None \<and>
   fst (main (example_env\<lparr>DATABASE_URL := None\<rparr>) example_rng (example_world [js ''Acme''] [])) = Exited 1 \<and>
   trace (snd (main (example_env\<lparr>DATABASE_URL := None\<rparr>) example_rng (example_world [js ''Acme''] [])))
     = [ConsoleError [missing_url], ProcessExit 1]"
  using missing_database_url_exits [of "example_env\<lparr>DATABASE_URL := None\<rparr>" example_rng "example_world [js ''Acme''] []"]
  by (simp add: example_env_def example_world_def)

text \<open>
  Claim C5. Whenever the body of the \<open>try\<close> fails with an error, the handler sends the
  \<open>rollback\<close>, then reports the message of that error and exits with code 1, whatever
  the \<open>rollback\<close> did: in particular when the server answers the \<open>rollback\<close> with a
  failure of its own, whose message is not reported.
\<close>

theorem rollback_failure_swallowed:
  assumes "DATABASE_URL env = Some url" and "url \<noteq> []"
    and "try_block rng (new_pool url w) = (Rejected err, w')"
  shows "fst (main env rng w) = Exited 1 \<and>
         trace_after env rng w =
           trace w' @ [Query Rollback, ConsoleError [failed_prefix, message err], ProcessExit 1] \<and>
         (\<forall>m fs. faults w' = Some m # fs \<longrightarrow> fst (pool_query Rollback w') = Rejected (Error m))"
  using assms by (simp add: main_unfold catch_handler_result pool_query_fault)

theorem rollback_failure_swallowed_witness:
  "fst (pool_query Rollback
     \<lparr>stdin = [], db_server = example_database, connection = None,
      faults = [Some (js ''Connection terminated unexpectedly'')],
      trace = [PoolCreated (js ''postgres://localhost/app''), Prompt q_name]\<rparr>)
     = Rejected (Error (js ''Connection terminated unexpectedly'')) \<and>
   fst (main example_env example_rng
     (example_world [js ''  ''] [Some (js ''Connection terminated unexpectedly'')])) = Exited 1 \<and>
   trace_after example_env example_rng
     (example_world [js ''  ''] [Some (js ''Connection terminated unexpectedly'')]) =
     [PoolCreated (js ''postgres://localhost/app''), Prompt q_name, Query Rollback,
      ConsoleError [failed_prefix, js ''Tenant name is required.''], ProcessExit 1]"
  using rollback_failure_swallowed [where env = example_env and rng = example_rng
      and url = "js ''postgres://localhost/app''"
      and w = "example_world [js ''  ''] [Some (js ''Connection terminated unexpectedly'')]"
      and err = name_required
      and w' = "\<lparr>stdin = [], db_server = example_database, connection = None,
         faults = [Some (js ''Connection terminated unexpectedly'')],
         trace = [PoolCreated (js ''postgres://localhost/app''), Prompt q_name]\<rparr>"]
  by (simp add: example_env_def example_world_def js_eq_Nil try_block_unfold new_pool_def emit_def
      collect_blank_name trim_examples name_required_def)

text \<open>
  Claim C6. The plaintext key is the hexadecimal encoding of 24 bytes of the entropy
  source, two digits for each byte in order: 48 characters, all hexadecimal digits,
  from which the 24 bytes can be read back (two sources that give the same key agree
  on them). The hash is the hexadecimal encoding of the SHA-256 digest of the key's
  UTF-8 bytes: 32 bytes, 64 hexadecimal digits, and on the standard's test message
  \<open>abc\<close> the standard's digest. In a run that succeeds the key printed is
  \<open>genApiKey rng\<close> and the hash stored in the new \<open>api_keys\<close> row is \<open>sha256Hex\<close> of
  that same key.
\<close>

theorem key_and_hash:
  "length (randomBytes rng 24) = 24 \<and>
   to_hex (randomBytes rng 24) = genApiKey rng \<and>
   concat (map (\<lambda>i. hex_byte (rng i)) [0..<24]) = genApiKey rng \<and>
   (genApiKey rng = genApiKey rng' \<longrightarrow> (\<forall>i<24. rng i = rng' i)) \<and>
   length (genApiKey rng) = 48 \<and>
   set (genApiKey rng) \<subseteq> set (js ''0123456789abcdef'') \<and>
   to_hex (sha256 (utf8 p)) = sha256Hex p \<and>
   length (sha256 (utf8 p)) = 32 \<and>
   length (sha256Hex p) = 64 \<and>
   set (sha256Hex p) \<subseteq> set (js ''0123456789abcdef'') \<and>
   sha256Hex (js ''abc'')
     = js ''ba7816bf8f01cfea414140de5dae2223b00361a396177a9cb410ff61f20015ad'' \<and>
   (DATABASE_URL env = Some url \<and> url \<noteq> [] \<and> stdin w = n # l # k # loc # b # v # rest \<and>
    trim n \<noteq> [] \<and> (trim k = []) = (trim loc = []) \<and> quiet (faults w) \<longrightarrow>
      ConsoleLog (genApiKey rng) \<in> set (trace_after env rng w) \<and>
      last (api_keys (tables_after env rng w)) =
        (new_id w, sha256Hex (genApiKey rng), or_default (trim l) (js ''primary'')))"
proof -
  have run: "ConsoleLog (genApiKey rng) \<in> set (trace_after env rng w) \<and>
      last (api_keys (tables_after env rng w)) =
        (new_id w, sha256Hex (genApiKey rng), or_default (trim l) (js ''primary''))"
    if "DATABASE_URL env = Some url" "url \<noteq> []" "stdin w = n # l # k # loc # b # v # rest"
      "trim n \<noteq> []" "(trim k = []) = (trim loc = [])" "quiet (faults w)"
    using main_success [OF that, of rng] by (simp add: report_lines_def)
  have bytes: "concat (map (\<lambda>i. hex_byte (rng i)) [0..<24]) = genApiKey rng"
    by (simp add: genApiKey_def to_hex_def randomBytes_def comp_def)
  have inj: "genApiKey rng = genApiKey rng' \<longrightarrow> (\<forall>i<24. rng i = rng' i)"
    using genApiKey_inj by blast
  from run bytes inj sha256Hex_abc show ?thesis
    by (simp add: genApiKey_def sha256Hex_def length_to_hex length_randomBytes length_sha256
        to_hex_chars)
qed

theorem key_and_hash_witness:
  "genApiKey example_rng = js ''0b30557a9fc4e90e33587da2c7ec11365b80a5caef14395e'' \<and>
   ConsoleLog (js ''0b30557a9fc4e90e33587da2c7ec11365b80a5caef14395e'')
     \<in> set (trace_after example_env example_rng (example_world example_lines [])) \<and>
   last (api_keys (tables_after example_env example_rng (example_world example_lines []))) =
     (id_default example_database 0,
      js ''6f1b3da6511e1b046edc6faa90c1eed5c9614b8bfefc16dc2c9f3558c4c90333'',
      js ''primary'')"
  using key_and_hash [where env = example_env and rng = example_rng and rng' = example_rng
      and w = "example_world example_lines []" and url = "js ''postgres://localhost/app''"
      and n = "js '' Acme Corp ''" and l = "[]" and k = "js ''ghl-key''" and loc = "js ''loc-42''"
      and b = "[]" and v = "js '' ''" and rest = "[]" and p = "genApiKey example_rng"]
    example_key example_digest
  by (simp add: example_env_def example_world_def example_lines_def
      example_database_def trim_examples trim_Nil js_eq_Nil quiet_def or_default_def)




text \<open>
  Claim C8. The collector asks its six questions in the fixed order and reads one line
  for each: tenant name, key label, third-party key, location id, base URL, version. A
  blank label becomes \<open>primary\<close>, a blank base URL and a blank version their fixed
  defaults; the third-party key and the location id are passed on as typed, and when
  both are blank nothing is stored for them. A blank tenant name is rejected after the
  first question, with no other line read.
\<close>

theorem prompt_collector:
  "(stdin w = n # l # k # loc # b # v # rest \<and> trim n \<noteq> [] \<longrightarrow>
      collect w =
        (Resolved \<lparr>name = trim n,
                   label = (if trim l = [] then js ''primary'' else trim l),
                   ghlApiKey = trim k,
                   ghlLocationId = trim loc,
                   ghlBaseUrl = (if trim b = [] then js ''https://services.leadconnectorhq.com''
                                 else trim b),
                   ghlVersion = (if trim v = [] then js ''2021-07-28'' else trim v)\<rparr>,
         w\<lparr>stdin := rest,
           trace := trace w @ [Prompt q_name, Prompt q_label, Prompt q_api_key,
                               Prompt q_location_id, Prompt q_base_url, Prompt q_version]\<rparr>)) \<and>
   (stdin w = n # rest' \<and> trim n = [] \<longrightarrow>
      collect w = (Rejected (Error (js ''Tenant name is required.'')),
                   w\<lparr>stdin := rest', trace := trace w @ [Prompt q_name]\<rparr>)) \<and>
   (ghlApiKey a = [] \<and> ghlLocationId a = [] \<longrightarrow> store_secrets a tid w' = (Resolved (), w'))"
  by (simp add: collect_six collect_blank_name store_secrets_skipped or_default_def name_required_def)

theorem prompt_collector_witness:
  "collect (example_world example_lines []) =
     (Resolved \<lparr>name = js ''Acme Corp'', label = js ''primary'',
                ghlApiKey = js ''ghl-key'', ghlLocationId = js ''loc-42'',
                ghlBaseUrl = js ''https://services.leadconnectorhq.com'',
                ghlVersion = js ''2021-07-28''\<rparr>,
      (example_world [] [])\<lparr>trace := [Prompt q_name, Prompt q_label, Prompt q_api_key,
                               Prompt q_location_id, Prompt q_base_url, Prompt q_version]\<rparr>) \<and>
   collect (example_world [js '' '', js ''never read''] []) =
     (Rejected (Error (js ''Tenant name is required.'')),
      (example_world [js ''never read''] [])\<lparr>trace := [Prompt q_name]\<rparr>) \<and>
   store_secrets \<lparr>name = js ''Acme Corp'', label = js ''primary'', ghlApiKey = [],
       ghlLocationId = [], ghlBaseUrl = js ''https://services.leadconnectorhq.com'',
       ghlVersion = js ''2021-07-28''\<rparr> (js ''tenant-0'') (example_world [] []) =
     (Resolved (), example_world [] [])"
  using prompt_collector [where w = "example_world example_lines []"
      and n = "js '' Acme Corp ''" and l = "[]" and k = "js ''ghl-key''" and loc = "js ''loc-42''"
      and b = "[]" and v = "js '' ''" and rest = "[]"
      and a = "\<lparr>name = js ''Acme Corp'', label = js ''primary'', ghlApiKey = [],
       ghlLocationId = [], ghlBaseUrl = js ''https://services.leadconnectorhq.com'',
       ghlVersion = js ''2021-07-28''\<rparr>" and tid = "js ''tenant-0''" and w' = "example_world [] []"]
    prompt_collector [where w = "example_world [js '' '', js ''never read''] []"
      and n = "js '' ''" and rest' = "[js ''never read'']"]
  by (simp add: example_world_def example_lines_def trim_examples trim_Nil js_eq_Nil)

text \<open>
  Claim C9. \<open>db\<close> is lazy and memoized: loading the module constructs nothing; a call
  that follows another returns the same pool and leaves the module as it is, whatever
  the environment has become; any number of calls constructs at most one pool; and from
  the loaded module every call returns the one pool constructed by the first.
\<close>

theorem db_lazy_memoized:
  "pool module_loaded = None \<and> constructed module_loaded = [] \<and>
   (case db env m of (r, m') \<Rightarrow> db env' m' = (r, m')) \<and>
   length (constructed (snd (db_calls n env m))) \<le> Suc (length (constructed m)) \<and>
   db_calls (Suc n) env module_loaded =
     (replicate (Suc n) 0,
      \<lparr>pool = Some 0,
       constructed = [\<lparr>connectionString = DATABASE_URL env,
          rejectUnauthorized = (if NODE_ENV env = Some (js ''production'') then Some False else None)\<rparr>]\<rparr>)"
proof -
  have "case db env m of (r, m') \<Rightarrow> db env' m' = (r, m')"
    by (cases "db env m") (simp add: db_again)
  moreover have "db_calls (Suc n) env module_loaded =
     (replicate (Suc n) 0,
      \<lparr>pool = Some 0,
       constructed = [\<lparr>connectionString = DATABASE_URL env,
          rejectUnauthorized = (if NODE_ENV env = Some (js ''production'') then Some False else None)\<rparr>]\<rparr>)"
    using db_calls_first [of module_loaded n env] by (simp add: module_loaded_def)
  ultimately show ?thesis
    using db_calls_at_most_once [of n env m] by (simp add: module_loaded_def)
qed

text \<open>
  Claim C10. A response made of white space only is trimmed to the empty string, so
  \<open>ask\<close> resolves as for an empty line, and a run in which such a response stands in
  any place ends as the run with an empty line in that place: same exit, same trace,
  same database. In particular a tenant name of white space only is rejected, and a
  label, base URL or version of white space only gets its default.
\<close>

theorem whitespace_only_is_blank:
  assumes "\<forall>c\<in>set s. is_white_space c"
  shows "trim s = [] \<and>
         ask q (w\<lparr>stdin := s # rest\<rparr>) = ask q (w\<lparr>stdin := [] # rest\<rparr>) \<and>
         fst (main env rng (w\<lparr>stdin := pre @ s # rest\<rparr>))
           = fst (main env rng (w\<lparr>stdin := pre @ [] # rest\<rparr>)) \<and>
         trace_after env rng (w\<lparr>stdin := pre @ s # rest\<rparr>)
           = trace_after env rng (w\<lparr>stdin := pre @ [] # rest\<rparr>) \<and>
         db_server (snd (main env rng (w\<lparr>stdin := pre @ s # rest\<rparr>)))
           = db_server (snd (main env rng (w\<lparr>stdin := pre @ [] # rest\<rparr>))) \<and>
         fst (collect (w\<lparr>stdin := s # rest\<rparr>)) = Rejected (Error (js ''Tenant name is required.'')) \<and>
         (trim n \<noteq> [] \<longrightarrow>
            fst (collect (w\<lparr>stdin := n # s # k # loc # s # s # rest\<rparr>)) =
              Resolved \<lparr>name = trim n, label = js ''primary'', ghlApiKey = trim k,
                        ghlLocationId = trim loc,
                        ghlBaseUrl = js ''https://services.leadconnectorhq.com'',
                        ghlVersion = js ''2021-07-28''\<rparr>)"
proof -
  from assms have blank: "trim s = []" by (rule trim_blank)
  have same: "map trim (stdin (w\<lparr>stdin := pre @ s # rest\<rparr>))
      = map trim (stdin (w\<lparr>stdin := pre @ [] # rest\<rparr>))"
    by (simp add: blank trim_Nil)
  from main_same_trimmed [OF same, of env rng] blank show ?thesis
    by (simp add: ask_Cons trim_Nil collect_blank_name collect_six or_default_def name_required_def)
qed

theorem whitespace_only_is_blank_witness:
  "trim (js ''  '') = [] \<and>
   fst (main example_env example_rng (example_world [js ''  ''] [])) = 
     fst (main example_env example_rng (example_world [[]] [])) \<and>
   trace_after example_env example_rng (example_world [js ''  ''] [])
     = trace_after example_env example_rng (example_world [[]] []) \<and>
   fst (collect (example_world [js ''Acme Corp'', js ''  '', js ''ghl-key'', js ''loc-42'', js ''  '', js ''  ''] [])) =
     Resolved \<lparr>name = js ''Acme Corp'', label = js ''primary'', ghlApiKey = js ''ghl-key'',
                ghlLocationId = js ''loc-42'',
                ghlBaseUrl = js ''https://services.leadconnectorhq.com'',
                ghlVersion = js ''2021-07-28''\<rparr>"
proof -
  have blank: "\<forall>c\<in>set (js ''  ''). is_white_space c"
    by (simp add: js_def is_white_space_def white_space_units_def)
  show ?thesis
    using whitespace_only_is_blank [OF blank, where w = "example_world [] []" and q = q_name
      and env = example_env and rng = example_rng and pre = "[]" and rest = "[]"
      and n = "js ''Acme Corp''" and k = "js ''ghl-key''" and loc = "js ''loc-42''"]
    by (simp add: example_world_def trim_examples js_eq_Nil)
qed

end
